theory Spec2Isabelle
  imports Main "HOL-Library.Sublist"
begin

section \<open>The rail-score compatibility package\<close>

text \<open>
  The package \<^verbatim>\<open>rail_score\<close> consists of one module, \<^verbatim>\<open>rail_score/__init__.py\<close>,
  whose body is six statements:
  \<^verbatim>\<open>
  import warnings                                               # line 23
  warnings.warn("...", DeprecationWarning, stacklevel=2)        # lines 25-36
  from rail_score_sdk import *                                  # line 39
  from rail_score_sdk import RailScoreClient, __version__       # line 40
  RailScore = RailScoreClient                                   # line 43
  __all__ = ["RailScore", "RailScoreClient"]                    # line 45
  \<close>
  Each statement is a function on the module's global namespace and the interpreter
  state that returns an exception or the updated namespace. What the statements ask of
  the Python runtime (the warnings filter and its display hook, the import system, the
  successor package and its submodules) is a parameter of the model, the record
  \<open>interp\<close>.
\<close>

subsection \<open>Values, namespaces, exceptions\<close>

text \<open>
  \<open>Ref a\<close> is a reference to the object whose identity is \<open>a\<close> (a class, a function, a
  string): Python's \<^verbatim>\<open>x is y\<close> is equality of references. \<open>Module n\<close> is the module object
  that the module cache holds under the name \<open>n\<close>. \<open>StrList ns\<close> is a sequence (list or
  tuple) of strings, the only kind of value whose content the module reads or writes.
  A namespace holds, for a module, what attribute lookup on the module finds.
\<close>

datatype pyval = Ref nat | StrList "string list" | Module string

type_synonym namespace = "string \<rightharpoonup> pyval"

datatype category = UserWarning | DeprecationWarning | PendingDeprecationWarning | FutureWarning

datatype exn =
    ModuleNotFoundError string
  | ImportError string string
  | AttributeError string string
  | TypeError string
  | NameError string
  | WarningAsError category string
  | OtherException string

text \<open>
  \<open>ModuleNotFoundError m\<close>: no module named \<open>m\<close> (a subclass of Python's ImportError).
  \<open>ImportError n m\<close>: cannot import name \<open>n\<close> from \<open>m\<close>.
  \<open>AttributeError m n\<close>: module \<open>m\<close> has no attribute \<open>n\<close>.
  \<open>TypeError m\<close>: the \<^verbatim>\<open>__all__\<close> of \<open>m\<close> is not a sequence of strings.
  \<open>WarningAsError c msg\<close>: the warning itself, raised under the filter action "error".
  \<open>OtherException d\<close>: an exception of any other class \<open>d\<close> (a \<^verbatim>\<open>SyntaxError\<close> in another
  module's body, the \<^verbatim>\<open>ValueError\<close> of a write to a closed stream).
\<close>

fun is_import_error :: "exn \<Rightarrow> bool" where
  "is_import_error (ModuleNotFoundError m) = True"
| "is_import_error (ImportError n m) = True"
| "is_import_error e = False"

subsection \<open>The interpreter\<close>

text \<open>
  \<open>warn_action\<close> is what the warnings filter and its registries decide for a warning of a
  category issued by this call: raise it as an exception (action "error", as under
  \<^verbatim>\<open>python -W error\<close>), drop it (action "ignore", and "default", "module", "once" after
  the first occurrence), or show it (action "always", and "default", "module", "once"
  at the first occurrence). \<open>showwarning\<close> is what showing a warning does: it prints the
  warning (\<open>None\<close>) or raises (a closed \<^verbatim>\<open>sys.stderr\<close> raises \<^verbatim>\<open>ValueError\<close>, a replaced
  \<^verbatim>\<open>warnings.showwarning\<close> hook may raise anything).
\<close>

datatype action = ActError | ActIgnore | ActShow

text \<open>
  What importing a module that is not yet in the module cache does: the module is not
  installed; or its body raises; or it loads with a namespace. A body that runs has
  imported other modules (its dependencies and submodules) before it ends or raises:
  the second argument of \<open>Fails\<close> and \<open>Loads\<close> holds what it left in the cache.
\<close>

datatype load_result =
    NotInstalled
  | Fails exn "string \<rightharpoonup> namespace"
  | Loads namespace "string \<rightharpoonup> namespace"

record interp =
  warn_action :: "category \<Rightarrow> action"
  showwarning :: "category \<Rightarrow> string \<Rightarrow> exn option"
  finder :: "string \<Rightarrow> load_result"
  stdlib_warnings :: namespace
  module_attrs :: namespace

text \<open>
  \<open>stdlib_warnings\<close> is the namespace of the standard library's \<^verbatim>\<open>warnings\<close> module, which
  every interpreter can import, and \<open>module_attrs\<close> the attributes the import system
  gives a new module before its body runs (\<^verbatim>\<open>__name__\<close>, \<^verbatim>\<open>__doc__\<close>, \<^verbatim>\<open>__file__\<close>, ...).
\<close>

datatype event =
    Imported string
  | Warned category string nat
  | StarImported string
  | FromImported string "string list"
  | Assigned string pyval

record state =
  sys_modules :: "string \<rightharpoonup> namespace"
  shown :: "(category \<times> string) list"
  trace :: "event list"

text \<open>
  \<open>sys_modules\<close> is the module cache \<^verbatim>\<open>sys.modules\<close>; \<open>shown\<close> is what the statements of
  this module have printed on the diagnostic channel (what the bodies of other modules
  print while they load is not recorded); \<open>trace\<close> is the log of the statements of this
  module executed so far, in order.
\<close>

definition record_event :: "event \<Rightarrow> state \<Rightarrow> state" where
  "record_event ev st = st\<lparr>trace := trace st @ [ev]\<rparr>"

text \<open>Modules that enter the cache; a module already cached stays as it is.\<close>

definition cache_more :: "(string \<rightharpoonup> namespace) \<Rightarrow> state \<Rightarrow> state" where
  "cache_more extra st = st\<lparr>sys_modules := extra ++ sys_modules st\<rparr>"

type_synonym 'a outcome = "(exn + 'a) \<times> state"

definition and_then :: "'a outcome \<Rightarrow> ('a \<Rightarrow> state \<Rightarrow> 'b outcome) \<Rightarrow> 'b outcome" where
  "and_then r f = (case r of (Inl e, st) \<Rightarrow> (Inl e, st) | (Inr x, st) \<Rightarrow> f x st)"

subsection \<open>What the runtime does for the module\<close>

text \<open>
  \<^verbatim>\<open>warnings.warn(message, category, stacklevel)\<close>: the warning is raised, dropped, or
  handed to the display hook, whose exception (if it raises one) reaches the caller.
\<close>

definition warn :: "interp \<Rightarrow> string \<Rightarrow> category \<Rightarrow> nat \<Rightarrow> state \<Rightarrow> unit outcome" where
  "warn env msg cat lvl st =
     (let st1 = record_event (Warned cat msg lvl) st in
      case warn_action env cat of
        ActError \<Rightarrow> (Inl (WarningAsError cat msg), st1)
      | ActIgnore \<Rightarrow> (Inr (), st1)
      | ActShow \<Rightarrow>
          (case showwarning env cat msg of
             Some e \<Rightarrow> (Inl e, st1)
           | None \<Rightarrow> (Inr (), st1\<lparr>shown := shown st1 @ [(cat, msg)]\<rparr>)))"

text \<open>
  The import system: a cached module is returned as it is. Another one is looked for
  and its body run: what the body imported stays in the cache, the module itself enters
  the cache when its body completes and is absent from it when the body raises.
\<close>

definition import_module :: "interp \<Rightarrow> string \<Rightarrow> state \<Rightarrow> namespace outcome" where
  "import_module env name st =
     (case sys_modules st name of
        Some m \<Rightarrow> (Inr m, st)
      | None \<Rightarrow>
          (case finder env name of
             NotInstalled \<Rightarrow> (Inl (ModuleNotFoundError name), st)
           | Fails e extra \<Rightarrow>
               (let st1 = cache_more extra st
                in (Inl e, st1\<lparr>sys_modules := (sys_modules st1)(name := None)\<rparr>))
           | Loads m extra \<Rightarrow>
               (let st1 = cache_more extra st
                in (Inr m, st1\<lparr>sys_modules := (sys_modules st1)(name \<mapsto> m)\<rparr>))))"

text \<open>
  A \<^verbatim>\<open>from p import ...\<close> on a package \<open>p\<close> (a module with \<^verbatim>\<open>__path__\<close>) first goes through
  the names listed: for each name that is not an attribute of \<open>p\<close> it imports the
  submodule \<open>p.name\<close>. A submodule that loads is set as an attribute of \<open>p\<close>; one that is
  already cached is left as it is; one that does not exist is passed over; any other
  exception of the import is raised. \<open>m\<close> is the namespace of \<open>p\<close>, which the cache holds
  under \<open>p\<close>; the result is the namespace with the attributes set.
\<close>

definition submodule_name :: "string \<Rightarrow> string \<Rightarrow> string" where
  "submodule_name p n = p @ ''.'' @ n"

definition import_submodule ::
    "interp \<Rightarrow> string \<Rightarrow> string \<Rightarrow> namespace \<Rightarrow> state \<Rightarrow> namespace outcome" where
  "import_submodule env p n m st =
     (case sys_modules st (submodule_name p n) of
        Some sub \<Rightarrow> (Inr m, st)
      | None \<Rightarrow>
          and_then (import_module env (submodule_name p n) st) (\<lambda>sub st1.
            (Inr (m(n \<mapsto> Module (submodule_name p n))),
             st1\<lparr>sys_modules :=
                   (sys_modules st1)(p \<mapsto> m(n \<mapsto> Module (submodule_name p n)))\<rparr>)))"

fun handle_fromlist ::
    "interp \<Rightarrow> string \<Rightarrow> string list \<Rightarrow> namespace \<Rightarrow> state \<Rightarrow> namespace outcome" where
  "handle_fromlist env p [] m st = (Inr m, st)"
| "handle_fromlist env p (n # ns) m st =
     (if n = ''*'' \<or> m n \<noteq> None then handle_fromlist env p ns m st
      else
        (case import_submodule env p n m st of
           (Inl e, st1) \<Rightarrow>
             if e = ModuleNotFoundError (submodule_name p n)
             then handle_fromlist env p ns m st1 else (Inl e, st1)
         | (Inr m1, st1) \<Rightarrow> handle_fromlist env p ns m1 st1))"

definition fromlist_names ::
    "interp \<Rightarrow> string \<Rightarrow> string list \<Rightarrow> namespace \<Rightarrow> state \<Rightarrow> namespace outcome" where
  "fromlist_names env p names m st =
     (if m ''__path__'' = None then (Inr m, st) else handle_fromlist env p names m st)"

definition fromlist_star :: "interp \<Rightarrow> string \<Rightarrow> namespace \<Rightarrow> state \<Rightarrow> namespace outcome" where
  "fromlist_star env p m st =
     (if m ''__path__'' = None then (Inr m, st)
      else
        (case m ''__all__'' of
           None \<Rightarrow> (Inr m, st)
         | Some (StrList ns) \<Rightarrow> handle_fromlist env p ns m st
         | Some v \<Rightarrow> (Inl (TypeError p), st)))"

text \<open>
  \<^verbatim>\<open>from m import *\<close> then binds the names listed in the \<^verbatim>\<open>__all__\<close> of \<open>m\<close>, each looked up
  as an attribute, or, when \<open>m\<close> has no \<^verbatim>\<open>__all__\<close>, every name of \<open>m\<close> that does not
  begin with an underscore.
\<close>

fun is_public :: "string \<Rightarrow> bool" where
  "is_public [] = True"
| "is_public (c # cs) = (c \<noteq> CHR ''_'')"

fun bind_listed :: "string \<Rightarrow> namespace \<Rightarrow> string list \<Rightarrow> namespace \<Rightarrow> exn + namespace" where
  "bind_listed mname m [] g = Inr g"
| "bind_listed mname m (n # ns) g =
     (case m n of
        None \<Rightarrow> Inl (AttributeError mname n)
      | Some v \<Rightarrow> bind_listed mname m ns (g(n \<mapsto> v)))"

definition bind_public :: "namespace \<Rightarrow> namespace \<Rightarrow> namespace" where
  "bind_public m g =
     (\<lambda>n. if is_public n then (case m n of Some v \<Rightarrow> Some v | None \<Rightarrow> g n) else g n)"

definition import_star :: "string \<Rightarrow> namespace \<Rightarrow> namespace \<Rightarrow> exn + namespace" where
  "import_star mname m g =
     (case m ''__all__'' of
        None \<Rightarrow> Inr (bind_public m g)
      | Some (StrList ns) \<Rightarrow> bind_listed mname m ns g
      | Some v \<Rightarrow> Inl (TypeError mname))"

text \<open>
  \<^verbatim>\<open>from m import a, b\<close> then looks each name up as an attribute of \<open>m\<close> and binds it
  before it turns to the next. (The interpreter's last resort for a name that is not an
  attribute, a look into the module cache for \<open>m.a\<close>, serves a submodule that is cached
  while its import is still running, in a circular import; it is left out, and where a
  statement depends on it the submodule is assumed not to be cached.)
\<close>

fun import_from :: "string \<Rightarrow> namespace \<Rightarrow> string list \<Rightarrow> namespace \<Rightarrow> exn + namespace" where
  "import_from mname m [] g = Inr g"
| "import_from mname m (n # ns) g =
     (case m n of
        None \<Rightarrow> Inl (ImportError n mname)
      | Some v \<Rightarrow> import_from mname m ns (g(n \<mapsto> v)))"

subsection \<open>The module body\<close>

text \<open>
  The message of lines 26 to 33, as its UTF-8 bytes: the two pictographs are the code
  points U+26A0 U+FE0F and U+27A1 U+FE0F.
\<close>

definition warning_sign :: string where
  "warning_sign = [CHR 0xE2, CHR 0x9A, CHR 0xA0, CHR 0xEF, CHR 0xB8, CHR 0x8F]"

definition right_arrow :: string where
  "right_arrow = [CHR 0xE2, CHR 0x9E, CHR 0xA1, CHR 0xEF, CHR 0xB8, CHR 0x8F]"

definition deprecation_message :: string where
  "deprecation_message =
     ''\<newline>\<newline>'' @
     ''  '' @ warning_sign @ ''  The 'rail-score' package is DEPRECATED and will not receive updates.\<newline>'' @
     ''  '' @ right_arrow @ ''  Please switch to 'rail-score-sdk':\<newline>\<newline>'' @
     ''      pip uninstall rail-score\<newline>'' @
     ''      pip install rail-score-sdk\<newline>\<newline>'' @
     ''  Then update your imports:\<newline>'' @
     ''      from rail_score_sdk import RailScoreClient\<newline>\<newline>'' @
     ''  Docs: https://pypi.org/project/rail-score-sdk/\<newline>''"

definition shim_name :: string where
  "shim_name = ''rail_score''"

definition successor_name :: string where
  "successor_name = ''rail_score_sdk''"

text \<open>
  Line 23. The standard library's module enters the cache unless it is there, and the
  name is bound to the module object.
\<close>

definition stmt_import_warnings :: "interp \<Rightarrow> namespace \<Rightarrow> state \<Rightarrow> namespace outcome" where
  "stmt_import_warnings env g st =
     (Inr (g(''warnings'' \<mapsto> Module ''warnings'')),
      record_event (Imported ''warnings'')
        (cache_more [''warnings'' \<mapsto> stdlib_warnings env] st))"

text \<open>Lines 25 to 36.\<close>

definition stmt_warn :: "interp \<Rightarrow> namespace \<Rightarrow> state \<Rightarrow> namespace outcome" where
  "stmt_warn env g st =
     and_then (warn env deprecation_message DeprecationWarning 2 st) (\<lambda>u st1. (Inr g, st1))"

text \<open>Line 39.\<close>

definition stmt_import_star :: "interp \<Rightarrow> namespace \<Rightarrow> state \<Rightarrow> namespace outcome" where
  "stmt_import_star env g st =
     and_then (import_module env successor_name st) (\<lambda>sdk st1.
     and_then (fromlist_star env successor_name sdk st1) (\<lambda>sdk1 st2.
       case import_star successor_name sdk1 g of
         Inl e \<Rightarrow> (Inl e, st2)
       | Inr g1 \<Rightarrow> (Inr g1, record_event (StarImported successor_name) st2)))"

text \<open>Line 40.\<close>

definition stmt_import_from :: "interp \<Rightarrow> namespace \<Rightarrow> state \<Rightarrow> namespace outcome" where
  "stmt_import_from env g st =
     and_then (import_module env successor_name st) (\<lambda>sdk st1.
     and_then (fromlist_names env successor_name [''RailScoreClient'', ''__version__''] sdk st1)
       (\<lambda>sdk1 st2.
       case import_from successor_name sdk1 [''RailScoreClient'', ''__version__''] g of
         Inl e \<Rightarrow> (Inl e, st2)
       | Inr g1 \<Rightarrow>
           (Inr g1,
            record_event (FromImported successor_name [''RailScoreClient'', ''__version__'']) st2)))"

text \<open>Line 43: the right-hand side is a name, read from the module's globals.\<close>

definition stmt_bind_legacy :: "namespace \<Rightarrow> state \<Rightarrow> namespace outcome" where
  "stmt_bind_legacy g st =
     (case g ''RailScoreClient'' of
        None \<Rightarrow> (Inl (NameError ''RailScoreClient''), st)
      | Some c \<Rightarrow> (Inr (g(''RailScore'' \<mapsto> c)), record_event (Assigned ''RailScore'' c) st))"

text \<open>Line 45.\<close>

definition export_list :: "string list" where
  "export_list = [''RailScore'', ''RailScoreClient'']"

definition stmt_publish :: "namespace \<Rightarrow> state \<Rightarrow> namespace outcome" where
  "stmt_publish g st =
     (Inr (g(''__all__'' \<mapsto> StrList export_list)),
      record_event (Assigned ''__all__'' (StrList export_list)) st)"

definition exec_body :: "interp \<Rightarrow> namespace \<Rightarrow> state \<Rightarrow> namespace outcome" where
  "exec_body env g st =
     and_then (and_then (and_then (and_then (and_then
       (stmt_import_warnings env g st)
       (stmt_warn env))
       (stmt_import_star env))
       (stmt_import_from env))
       stmt_bind_legacy)
       stmt_publish"

text \<open>
  \<^verbatim>\<open>import rail_score\<close>: a module in the cache is returned without running its body;
  otherwise the body runs on a new module, which enters the cache when the body
  completes and is absent from it when the body raises.
\<close>

definition import_shim :: "interp \<Rightarrow> state \<Rightarrow> namespace outcome" where
  "import_shim env st =
     (case sys_modules st shim_name of
        Some m \<Rightarrow> (Inr m, st)
      | None \<Rightarrow>
          (case exec_body env (module_attrs env) st of
             (Inl e, st1) \<Rightarrow> (Inl e, st1\<lparr>sys_modules := (sys_modules st1)(shim_name := None)\<rparr>)
           | (Inr g, st1) \<Rightarrow> (Inr g, st1\<lparr>sys_modules := (sys_modules st1)(shim_name \<mapsto> g)\<rparr>)))"

subsection \<open>Observations\<close>

text \<open>The names a module publishes: what \<^verbatim>\<open>from m import *\<close> would bind.\<close>

definition export_set :: "namespace \<Rightarrow> string set" where
  "export_set m =
     (case m ''__all__'' of
        None \<Rightarrow> {n. is_public n \<and> m n \<noteq> None}
      | Some (StrList ns) \<Rightarrow> set ns
      | Some v \<Rightarrow> {})"

fun is_deprecation_notice :: "event \<Rightarrow> bool" where
  "is_deprecation_notice (Warned c msg lvl) = (c = DeprecationWarning)"
| "is_deprecation_notice ev = False"

fun assigns :: "string \<Rightarrow> event \<Rightarrow> bool" where
  "assigns n (Assigned k v) = (k = n)"
| "assigns n ev = False"

text \<open>Python's \<^verbatim>\<open>needle in text\<close> on strings.\<close>

definition occurs_in :: "string \<Rightarrow> string \<Rightarrow> bool" where
  "occurs_in needle text = sublist needle text"

text \<open>
  What line 25 raises, if it raises; what it prints, if it prints; the complete log of a
  load; and the first of the two names of line 40 that a successor namespace does not
  have.
\<close>

definition emission :: "interp \<Rightarrow> exn option" where
  "emission env =
     (case warn_action env DeprecationWarning of
        ActError \<Rightarrow> Some (WarningAsError DeprecationWarning deprecation_message)
      | ActIgnore \<Rightarrow> None
      | ActShow \<Rightarrow> showwarning env DeprecationWarning deprecation_message)"

definition notice_shown :: "interp \<Rightarrow> (category \<times> string) list" where
  "notice_shown env =
     (if warn_action env DeprecationWarning = ActShow \<and>
         showwarning env DeprecationWarning deprecation_message = None
      then [(DeprecationWarning, deprecation_message)] else [])"

definition full_trace :: "pyval \<Rightarrow> event list" where
  "full_trace c =
     [Imported ''warnings'',
      Warned DeprecationWarning deprecation_message 2,
      StarImported successor_name,
      FromImported successor_name [''RailScoreClient'', ''__version__''],
      Assigned ''RailScore'' c,
      Assigned ''__all__'' (StrList export_list)]"


text \<open>
  The statements up to line 39; that no submodule of the successor stands in for a name
  (none is cached, and the successor is no package or none is installed); that a
  successor namespace has every name line 39 and line 40 look up; and what the module
  binds a name to once it is cached.
\<close>

definition lines_23_to_39 :: "interp \<Rightarrow> namespace \<Rightarrow> state \<Rightarrow> namespace outcome" where
  "lines_23_to_39 env g st =
     and_then (and_then (stmt_import_warnings env g st) (stmt_warn env)) (stmt_import_star env)"


definition complete :: "namespace \<Rightarrow> bool" where
  "complete sdk =
     (sdk ''RailScoreClient'' \<noteq> None \<and> sdk ''__version__'' \<noteq> None \<and>
      (case sdk ''__all__'' of
         None \<Rightarrow> True
       | Some (StrList ns) \<Rightarrow> list_all (\<lambda>n. sdk n \<noteq> None) ns
       | Some v \<Rightarrow> False))"


text \<open>
  Two relations between the state before and after a step of the import system: the
  cache only grows (a module cached stays cached, with at least the attributes it had),
  and the printed warnings and the log are as they were.
\<close>

definition cache_kept :: "state \<Rightarrow> state \<Rightarrow> bool" where
  "cache_kept st st' =
     (\<forall>k m. sys_modules st k = Some m \<longrightarrow> (\<exists>m'. sys_modules st' k = Some m' \<and> m \<subseteq>\<^sub>m m'))"

definition log_kept :: "state \<Rightarrow> state \<Rightarrow> bool" where
  "log_kept st st' = (trace st' = trace st \<and> shown st' = shown st)"

subsection \<open>Interpreters and states to run the module in\<close>

definition sdk_module :: namespace where
  "sdk_module =
     [''RailScoreClient'' \<mapsto> Ref 1, ''__version__'' \<mapsto> Ref 2, ''evaluate'' \<mapsto> Ref 3,
      ''_private'' \<mapsto> Ref 4]"

definition env_installed :: interp where
  "env_installed =
     \<lparr>warn_action = (\<lambda>c. ActShow),
      showwarning = (\<lambda>c msg. None),
      finder = (\<lambda>n. if n = ''rail_score_sdk'' then Loads sdk_module [''httpx'' \<mapsto> Map.empty]
                    else NotInstalled),
      stdlib_warnings = [''warn'' \<mapsto> Ref 0],
      module_attrs = Map.empty\<rparr>"

definition env_missing :: interp where
  "env_missing = env_installed\<lparr>finder := (\<lambda>n. NotInstalled)\<rparr>"

definition env_strict :: interp where
  "env_strict = env_installed\<lparr>warn_action := (\<lambda>c. ActError)\<rparr>"

definition env_strict_missing :: interp where
  "env_strict_missing = env_missing\<lparr>warn_action := (\<lambda>c. ActError)\<rparr>"

definition env_closed_stderr :: interp where
  "env_closed_stderr = env_installed\<lparr>showwarning := (\<lambda>c msg. Some (OtherException ''ValueError''))\<rparr>"

definition env_broken :: interp where
  "env_broken =
     env_installed\<lparr>finder := (\<lambda>n. Fails (OtherException ''SyntaxError'') [''httpx'' \<mapsto> Map.empty])\<rparr>"

definition st_fresh :: state where
  "st_fresh = \<lparr>sys_modules = Map.empty, shown = [], trace = []\<rparr>"

text \<open>
  A successor without \<^verbatim>\<open>__version__\<close>; a successor that is a package without the attribute
  \<^verbatim>\<open>__version__\<close> but with a submodule of that name; and the module and the state that a
  load under \<open>env_installed\<close> ends with.
\<close>

definition sdk_incomplete :: namespace where
  "sdk_incomplete = [''RailScoreClient'' \<mapsto> Ref 1, ''evaluate'' \<mapsto> Ref 3]"

definition env_incomplete :: interp where
  "env_incomplete =
     env_installed\<lparr>finder :=
       (\<lambda>n. if n = ''rail_score_sdk'' then Loads sdk_incomplete Map.empty else NotInstalled)\<rparr>"

definition sdk_package :: namespace where
  "sdk_package = [''__path__'' \<mapsto> Ref 5, ''RailScoreClient'' \<mapsto> Ref 1]"

definition env_package :: interp where
  "env_package =
     env_installed\<lparr>finder :=
       (\<lambda>n. if n = ''rail_score_sdk'' then Loads sdk_package Map.empty
            else if n = ''rail_score_sdk.__version__'' then Loads [''value'' \<mapsto> Ref 6] Map.empty
            else NotInstalled)\<rparr>"

definition m_loaded :: namespace where
  "m_loaded =
     (bind_public sdk_module [''warnings'' \<mapsto> Module ''warnings''])
       (''RailScoreClient'' \<mapsto> Ref 1, ''__version__'' \<mapsto> Ref 2, ''RailScore'' \<mapsto> Ref 1,
        ''__all__'' \<mapsto> StrList export_list)"

definition st_loaded :: state where
  "st_loaded =
     \<lparr>sys_modules =
        [''httpx'' \<mapsto> Map.empty, ''warnings'' \<mapsto> [''warn'' \<mapsto> Ref 0],
         ''rail_score_sdk'' \<mapsto> sdk_module, ''rail_score'' \<mapsto> m_loaded],
      shown = [(DeprecationWarning, deprecation_message)],
      trace = full_trace (Ref 1)\<rparr>"

section \<open>How the import system and each statement behave\<close>

lemma and_then_Inr:
  assumes "and_then r f = (Inr y, st')"
  obtains x st1 where "r = (Inr x, st1)" and "f x st1 = (Inr y, st')"
  using assms by (auto simp: and_then_def split: prod.splits sum.splits)

lemma and_then_Inl:
  assumes "and_then r f = (Inl e, st')"
  obtains "r = (Inl e, st')" | x st1 where "r = (Inr x, st1)" and "f x st1 = (Inl e, st')"
  using assms by (auto simp: and_then_def split: prod.splits sum.splits)

lemma and_then_simps [simp]:
  "and_then (Inl e, st) f = (Inl e, st)" "and_then (Inr x, st) f = f x st"
  by (simp_all add: and_then_def)

lemma record_event_simps [simp]:
  "trace (record_event ev st) = trace st @ [ev]"
  "sys_modules (record_event ev st) = sys_modules st"
  "shown (record_event ev st) = shown st"
  by (simp_all add: record_event_def)

lemma cache_more_simps [simp]:
  "trace (cache_more extra st) = trace st"
  "shown (cache_more extra st) = shown st"
  "sys_modules (cache_more extra st) = extra ++ sys_modules st"
  by (simp_all add: cache_more_def)

lemma cache_more_keeps: "sys_modules st k = Some m \<Longrightarrow> sys_modules (cache_more extra st) k = Some m"
  by (simp add: map_add_Some_iff)

lemma submodule_name_differs [simp]: "submodule_name p n \<noteq> p" "p \<noteq> submodule_name p n"
  by (simp_all add: submodule_name_def)

lemma cache_kept_refl [simp]: "cache_kept st st"
  by (auto simp: cache_kept_def)

lemma cache_kept_trans: "cache_kept st st1 \<Longrightarrow> cache_kept st1 st2 \<Longrightarrow> cache_kept st st2"
  unfolding cache_kept_def by (meson map_le_trans)

lemma cache_keptD:
  "cache_kept st st' \<Longrightarrow> sys_modules st k = Some m \<Longrightarrow> \<exists>m'. sys_modules st' k = Some m' \<and> m \<subseteq>\<^sub>m m'"
  by (auto simp: cache_kept_def)

lemma cache_kept_record_event [simp]:
  "cache_kept st (record_event ev st')  = cache_kept st st'"
  "cache_kept (record_event ev st) st' = cache_kept st st'"
  by (simp_all add: cache_kept_def)

lemma cache_kept_cache_more: "cache_kept st (cache_more extra st)"
  by (auto simp: cache_kept_def map_add_Some_iff)

lemma log_kept_refl [simp]: "log_kept st st"
  by (simp add: log_kept_def)

lemma log_kept_trans: "log_kept st st1 \<Longrightarrow> log_kept st1 st2 \<Longrightarrow> log_kept st st2"
  by (simp add: log_kept_def)

lemma import_module_Inr:
  assumes "import_module env n st = (Inr m, st')"
  shows "sys_modules st' n = Some m" and "log_kept st st'" and "cache_kept st st'"
    and "sys_modules st n = Some m \<or>
         (sys_modules st n = None \<and> (\<exists>extra. finder env n = Loads m extra))"
  using assms
  by (auto simp: import_module_def Let_def log_kept_def cache_kept_def map_add_Some_iff
      split: option.splits load_result.splits)

lemma import_module_Inl:
  assumes "import_module env n st = (Inl e, st')"
  shows "sys_modules st n = None" and "sys_modules st' n = None"
    and "log_kept st st'" and "cache_kept st st'"
    and "(finder env n = NotInstalled \<and> e = ModuleNotFoundError n \<and> st' = st) \<or>
         (\<exists>extra. finder env n = Fails e extra)"
  using assms
  by (auto simp: import_module_def Let_def log_kept_def cache_kept_def map_add_Some_iff
      split: option.splits load_result.splits)

lemma import_module_cached:
  "sys_modules st n = Some m \<Longrightarrow> import_module env n st = (Inr m, st)"
  by (simp add: import_module_def)

lemma import_submodule_Inr:
  assumes "import_submodule env p n m st = (Inr m', st')" and "sys_modules st p = Some m"
    and "m n = None"
  shows "sys_modules st' p = Some m'" and "log_kept st st'" and "cache_kept st st'"
    and "m \<subseteq>\<^sub>m m'" and "m' = m \<or> m' = m(n \<mapsto> Module (submodule_name p n))"
proof -
  show "sys_modules st' p = Some m'" and "log_kept st st'" and "m \<subseteq>\<^sub>m m'"
    and "m' = m \<or> m' = m(n \<mapsto> Module (submodule_name p n))"
    using assms
    by (auto simp: import_submodule_def log_kept_def map_le_def
        dest!: import_module_Inr(2) elim!: and_then_Inr split: option.splits)
  show "cache_kept st st'"
  proof (cases "sys_modules st (submodule_name p n)")
    case (Some sub)
    with assms show ?thesis by (simp add: import_submodule_def)
  next
    case None
    with assms(1) obtain sub st1 where im: "import_module env (submodule_name p n) st = (Inr sub, st1)"
      and st': "st' = st1\<lparr>sys_modules :=
                   (sys_modules st1)(p \<mapsto> m(n \<mapsto> Module (submodule_name p n)))\<rparr>"
      by (auto simp: import_submodule_def elim!: and_then_Inr)
    note k = import_module_Inr(3) [OF im]
    show ?thesis
      unfolding cache_kept_def
    proof (intro allI impI)
      fix k x
      assume kx: "sys_modules st k = Some x"
      show "\<exists>m'. sys_modules st' k = Some m' \<and> x \<subseteq>\<^sub>m m'"
      proof (cases "k = p")
        case True
        with kx assms(2) have "x = m" by simp
        with True assms(3) show ?thesis by (auto simp: st' map_le_def)
      next
        case False
        with cache_keptD [OF k kx] show ?thesis by (simp add: st')
      qed
    qed
  qed
qed

lemma import_submodule_Inl:
  assumes "import_submodule env p n m st = (Inl e, st')" and "sys_modules st p = Some m"
  shows "sys_modules st' p = Some m" and "log_kept st st'" and "cache_kept st st'"
    and "sys_modules st (submodule_name p n) = None"
    and "(finder env (submodule_name p n) = NotInstalled \<and>
          e = ModuleNotFoundError (submodule_name p n) \<and> st' = st) \<or>
         (\<exists>extra. finder env (submodule_name p n) = Fails e extra)"
proof -
  from assms(1) have none: "sys_modules st (submodule_name p n) = None"
    and im: "import_module env (submodule_name p n) st = (Inl e, st')"
    by (auto simp: import_submodule_def elim!: and_then_Inl split: option.splits)
  note f = import_module_Inl [OF im]
  show "sys_modules st (submodule_name p n) = None" by (rule none)
  show "log_kept st st'" by (rule f(3))
  show "cache_kept st st'" by (rule f(4))
  from cache_keptD [OF f(4) assms(2)] obtain m' where m': "sys_modules st' p = Some m'" "m \<subseteq>\<^sub>m m'"
    by blast
  from im assms(2) show "sys_modules st' p = Some m"
    by (auto simp: import_module_def Let_def map_add_Some_iff
        split: option.splits load_result.splits)
  show "(finder env (submodule_name p n) = NotInstalled \<and>
          e = ModuleNotFoundError (submodule_name p n) \<and> st' = st) \<or>
         (\<exists>extra. finder env (submodule_name p n) = Fails e extra)"
    by (rule f(5))
qed

lemma handle_fromlist_Inr:
  assumes "handle_fromlist env p ns m st = (Inr m', st')" and "sys_modules st p = Some m"
  shows "sys_modules st' p = Some m' \<and> log_kept st st' \<and> cache_kept st st' \<and> m \<subseteq>\<^sub>m m' \<and>
         (\<forall>k. k \<notin> set ns \<longrightarrow> m' k = m k)"
  using assms
proof (induction ns arbitrary: m st)
  case Nil
  then show ?case by simp
next
  case (Cons n ns)
  show ?case
  proof (cases "n = ''*'' \<or> m n \<noteq> None")
    case True
    with Cons.prems have "handle_fromlist env p ns m st = (Inr m', st')" by auto
    from Cons.IH [OF this Cons.prems(2)] show ?thesis by simp
  next
    case False
    then have mn: "m n = None" by simp
    obtain r st1 where sub: "import_submodule env p n m st = (r, st1)"
      by (cases "import_submodule env p n m st")
    show ?thesis
    proof (cases r)
      case (Inl e)
      with sub have sub': "import_submodule env p n m st = (Inl e, st1)" by simp
      with False Cons.prems(1) have rest: "handle_fromlist env p ns m st1 = (Inr m', st')"
        by (auto split: if_splits)
      note f = import_submodule_Inl [OF sub' Cons.prems(2)]
      from Cons.IH [OF rest f(1)] f(2,3) show ?thesis
        by (auto intro: log_kept_trans cache_kept_trans)
    next
      case (Inr m1)
      with sub have sub': "import_submodule env p n m st = (Inr m1, st1)" by simp
      with False Cons.prems(1) have rest: "handle_fromlist env p ns m1 st1 = (Inr m', st')"
        by auto
      note f = import_submodule_Inr [OF sub' Cons.prems(2) mn]
      from Cons.IH [OF rest f(1)] have ih: "sys_modules st' p = Some m'" "log_kept st1 st'"
        "cache_kept st1 st'" "m1 \<subseteq>\<^sub>m m'" "\<forall>k. k \<notin> set ns \<longrightarrow> m' k = m1 k"
        by simp_all
      have "\<forall>k. k \<notin> set (n # ns) \<longrightarrow> m' k = m k"
        using ih(5) f(5) by auto
      with ih f show ?thesis
        by (auto intro: log_kept_trans cache_kept_trans map_le_trans)
    qed
  qed
qed

lemma handle_fromlist_Inl:
  assumes "handle_fromlist env p ns m st = (Inl e, st')" and "sys_modules st p = Some m"
  shows "log_kept st st' \<and> cache_kept st st'"
  using assms
proof (induction ns arbitrary: m st)
  case Nil
  then show ?case by simp
next
  case (Cons n ns)
  show ?case
  proof (cases "n = ''*'' \<or> m n \<noteq> None")
    case True
    with Cons.prems have "handle_fromlist env p ns m st = (Inl e, st')" by auto
    from Cons.IH [OF this Cons.prems(2)] show ?thesis .
  next
    case False
    then have mn: "m n = None" by simp
    obtain r st1 where sub: "import_submodule env p n m st = (r, st1)"
      by (cases "import_submodule env p n m st")
    show ?thesis
    proof (cases r)
      case (Inl e1)
      with sub have sub': "import_submodule env p n m st = (Inl e1, st1)" by simp
      note f = import_submodule_Inl [OF sub' Cons.prems(2)]
      show ?thesis
      proof (cases "e1 = ModuleNotFoundError (submodule_name p n)")
        case True
        with sub' False Cons.prems(1) have "handle_fromlist env p ns m st1 = (Inl e, st')"
          by auto
        from Cons.IH [OF this f(1)] f(2,3) show ?thesis
          by (auto intro: log_kept_trans cache_kept_trans)
      next
        case neq: False
        with sub' False Cons.prems(1) have "st' = st1" by auto
        with f(2,3) show ?thesis by simp
      qed
    next
      case (Inr m1)
      with sub have sub': "import_submodule env p n m st = (Inr m1, st1)" by simp
      with False Cons.prems(1) have rest: "handle_fromlist env p ns m1 st1 = (Inl e, st')"
        by auto
      note f = import_submodule_Inr [OF sub' Cons.prems(2) mn]
      from Cons.IH [OF rest f(1)] f(2,3) show ?thesis
        by (auto intro: log_kept_trans cache_kept_trans)
    qed
  qed
qed

lemma handle_fromlist_nothing_to_import:
  assumes "\<forall>n \<in> set ns. n = ''*'' \<or> m n \<noteq> None \<or>
             (sys_modules st (submodule_name p n) = None \<and>
              finder env (submodule_name p n) = NotInstalled)"
  shows "handle_fromlist env p ns m st = (Inr m, st)"
  using assms
  by (induction ns) (auto simp: import_submodule_def import_module_def)

lemma fromlist_names_Inr:
  assumes "fromlist_names env p ns m st = (Inr m', st')" and "sys_modules st p = Some m"
  shows "sys_modules st' p = Some m'" "log_kept st st'" "cache_kept st st'" "m \<subseteq>\<^sub>m m'"
    "k \<notin> set ns \<Longrightarrow> m' k = m k"
  using assms handle_fromlist_Inr [of env p ns m st m' st']
  by (auto simp: fromlist_names_def split: if_splits)

lemma fromlist_names_Inl:
  assumes "fromlist_names env p ns m st = (Inl e, st')" and "sys_modules st p = Some m"
  shows "log_kept st st'" "cache_kept st st'"
  using assms handle_fromlist_Inl [of env p ns m st e st']
  by (auto simp: fromlist_names_def split: if_splits)

lemma fromlist_star_Inr:
  assumes "fromlist_star env p m st = (Inr m', st')" and "sys_modules st p = Some m"
  shows "sys_modules st' p = Some m' \<and> log_kept st st' \<and> cache_kept st st' \<and> m \<subseteq>\<^sub>m m' \<and>
         m' ''__all__'' = m ''__all__''"
proof -
  consider (same) "m' = m" "st' = st"
    | (listed) ns where "m ''__all__'' = Some (StrList ns)"
        "handle_fromlist env p ns m st = (Inr m', st')"
    using assms(1)
    by (auto simp: fromlist_star_def split: if_splits option.splits pyval.splits)
  then show ?thesis
  proof cases
    case same
    with assms(2) show ?thesis by simp
  next
    case (listed ns)
    note h = handle_fromlist_Inr [OF listed(2) assms(2)]
    from h have "m \<subseteq>\<^sub>m m'" by simp
    with listed(1) have "m' ''__all__'' = m ''__all__''"
      by (metis domI map_le_def)
    with h show ?thesis by simp
  qed
qed

lemma fromlist_star_Inl:
  assumes "fromlist_star env p m st = (Inl e, st')" and "sys_modules st p = Some m"
  shows "log_kept st st' \<and> cache_kept st st'"
proof -
  consider (bad) "st' = st"
    | (listed) ns where "handle_fromlist env p ns m st = (Inl e, st')"
    using assms(1)
    by (auto simp: fromlist_star_def split: if_splits option.splits pyval.splits)
  then show ?thesis
  proof cases
    case bad
    then show ?thesis by simp
  next
    case (listed ns)
    from handle_fromlist_Inl [OF listed assms(2)] show ?thesis .
  qed
qed

lemma fromlist_star_complete:
  assumes "complete m"
  shows "fromlist_star env p m st = (Inr m, st)"
proof (cases "m ''__all__''")
  case None
  then show ?thesis by (simp add: fromlist_star_def)
next
  case (Some v)
  with assms obtain ns where v: "v = StrList ns" and all: "list_all (\<lambda>n. m n \<noteq> None) ns"
    by (cases v) (auto simp: complete_def)
  from all have "handle_fromlist env p ns m st = (Inr m, st)"
    by (intro handle_fromlist_nothing_to_import) (auto simp: list_all_iff)
  with Some v show ?thesis by (simp add: fromlist_star_def)
qed

lemma bind_listed_Inr:
  "bind_listed mn m ns g = Inr g' \<Longrightarrow> g' k = (if k \<in> set ns then m k else g k)"
proof (induction ns arbitrary: g)
  case Nil
  then show ?case by simp
next
  case (Cons n ns)
  then obtain v where v: "m n = Some v" and rest: "bind_listed mn m ns (g(n \<mapsto> v)) = Inr g'"
    by (auto split: option.splits)
  from Cons.IH [OF rest] v show ?case by auto
qed

lemma bind_listed_all_present:
  "list_all (\<lambda>n. m n \<noteq> None) ns \<Longrightarrow> \<exists>g'. bind_listed mn m ns g = Inr g'"
  by (induction ns arbitrary: g) auto

lemma import_star_Inr:
  assumes "import_star mn m g = Inr g'" and "k \<in> export_set m"
  shows "g' k = m k"
proof (cases "m ''__all__''")
  case None
  with assms show ?thesis
    by (auto simp: import_star_def export_set_def bind_public_def)
next
  case (Some a)
  with assms obtain ns where a: "a = StrList ns"
    by (cases a) (simp_all add: import_star_def)
  with Some assms have "bind_listed mn m ns g = Inr g'" and "k \<in> set ns"
    by (simp_all add: import_star_def export_set_def)
  then show ?thesis using bind_listed_Inr by fastforce
qed

lemma import_star_complete:
  assumes "complete m"
  shows "\<exists>g'. import_star mn m g = Inr g'"
proof (cases "m ''__all__''")
  case None
  then show ?thesis by (simp add: import_star_def)
next
  case (Some v)
  with assms obtain ns where "v = StrList ns" and "list_all (\<lambda>n. m n \<noteq> None) ns"
    by (cases v) (auto simp: complete_def)
  with Some bind_listed_all_present [of m ns mn g] show ?thesis
    by (simp add: import_star_def)
qed

lemma import_from_two_Inr:
  assumes "import_from mn m [a, b] g = Inr g'"
  obtains va vb where "m a = Some va" and "m b = Some vb" and "g' = g(a \<mapsto> va, b \<mapsto> vb)"
  using assms by (auto split: option.splits)


lemma names_differ [simp]:
  "shim_name \<noteq> successor_name" "successor_name \<noteq> shim_name"
  "successor_name \<noteq> ''warnings''" "shim_name \<noteq> ''warnings''"
  "''warnings'' \<noteq> successor_name" "''warnings'' \<noteq> shim_name"
  by (simp_all add: shim_name_def successor_name_def)

lemma stmt_import_warnings_result:
  assumes "stmt_import_warnings env g st = (r, st')"
  shows "r = Inr (g(''warnings'' \<mapsto> Module ''warnings''))"
    and "trace st' = trace st @ [Imported ''warnings'']" and "shown st' = shown st"
    and "cache_kept st st'" and "sys_modules st' ''warnings'' \<noteq> None"
    and "k \<noteq> ''warnings'' \<Longrightarrow> sys_modules st' k = sys_modules st k"
  using assms
  by (auto simp: stmt_import_warnings_def cache_kept_cache_more map_add_def
      split: option.splits)

lemma stmt_warn_Inr:
  assumes "stmt_warn env g st = (Inr g', st')"
  shows "g' = g" and "emission env = None"
    and "trace st' = trace st @ [Warned DeprecationWarning deprecation_message 2]"
    and "sys_modules st' = sys_modules st"
    and "shown st' = shown st @ notice_shown env"
  using assms
  by (auto simp: stmt_warn_def warn_def and_then_def Let_def emission_def notice_shown_def
      split: action.splits option.splits)

lemma stmt_warn_Inl:
  assumes "stmt_warn env g st = (Inl e, st')"
  shows "emission env = Some e"
    and "trace st' = trace st @ [Warned DeprecationWarning deprecation_message 2]"
    and "sys_modules st' = sys_modules st"
    and "shown st' = shown st"
  using assms
  by (auto simp: stmt_warn_def warn_def and_then_def Let_def emission_def
      split: action.splits option.splits)

lemma stmt_warn_emission:
  "fst (stmt_warn env g st) = (case emission env of Some e \<Rightarrow> Inl e | None \<Rightarrow> Inr g)"
  by (auto simp: stmt_warn_def warn_def and_then_def Let_def emission_def
      split: action.splits option.splits)

lemma stmt_import_star_Inr:
  assumes "stmt_import_star env g st = (Inr g', st')"
  obtains sdk0 sdk1 where "sys_modules st' successor_name = Some sdk1"
    and "import_star successor_name sdk1 g = Inr g'"
    and "trace st' = trace st @ [StarImported successor_name]"
    and "shown st' = shown st"
    and "cache_kept st st'"
    and "sys_modules st successor_name = Some sdk0 \<or>
         (sys_modules st successor_name = None \<and>
          (\<exists>extra. finder env successor_name = Loads sdk0 extra))"
    and "sdk0 \<subseteq>\<^sub>m sdk1"
proof -
  from assms obtain sdk0 st1 where
    im: "import_module env successor_name st = (Inr sdk0, st1)" and
    r1: "and_then (fromlist_star env successor_name sdk0 st1) (\<lambda>sdk1 st2.
       case import_star successor_name sdk1 g of
         Inl e \<Rightarrow> (Inl e, st2)
       | Inr g1 \<Rightarrow> (Inr g1, record_event (StarImported successor_name) st2)) = (Inr g', st')"
    unfolding stmt_import_star_def by (rule and_then_Inr)
  from r1 obtain sdk1 st2 where
    fl: "fromlist_star env successor_name sdk0 st1 = (Inr sdk1, st2)" and
    r2: "(case import_star successor_name sdk1 g of
         Inl e \<Rightarrow> (Inl e, st2)
       | Inr g1 \<Rightarrow> (Inr g1, record_event (StarImported successor_name) st2)) = (Inr g', st')"
    by (rule and_then_Inr)
  from r2 have star: "import_star successor_name sdk1 g = Inr g'"
    and st': "st' = record_event (StarImported successor_name) st2"
    by (auto split: sum.splits)
  note i = import_module_Inr [OF im]
  note f = fromlist_star_Inr [OF fl i(1)]
  from i(2) f have lk: "log_kept st st2" by (auto intro: log_kept_trans)
  from i(3) f have ck: "cache_kept st st2" by (auto intro: cache_kept_trans)
  show thesis
  proof (rule that [of sdk1 sdk0])
    show "sys_modules st' successor_name = Some sdk1" using f by (simp add: st')
    show "import_star successor_name sdk1 g = Inr g'" by (rule star)
    show "trace st' = trace st @ [StarImported successor_name]"
      using lk by (simp add: st' log_kept_def)
    show "shown st' = shown st" using lk by (simp add: st' log_kept_def)
    show "cache_kept st st'" using ck by (simp add: st')
    show "sys_modules st successor_name = Some sdk0 \<or>
         (sys_modules st successor_name = None \<and>
          (\<exists>extra. finder env successor_name = Loads sdk0 extra))" by (rule i(4))
    show "sdk0 \<subseteq>\<^sub>m sdk1" using f by simp
  qed
qed

lemma stmt_import_star_Inl:
  assumes "stmt_import_star env g st = (Inl e, st')"
  obtains (load_fails) "sys_modules st successor_name = None"
      "sys_modules st' successor_name = None" "log_kept st st'" "cache_kept st st'"
      "(finder env successor_name = NotInstalled \<and> e = ModuleNotFoundError successor_name) \<or>
       (\<exists>extra. finder env successor_name = Fails e extra)"
  | (star_fails) sdk0 sdk1 where "sys_modules st' successor_name = Some sdk1"
      "sdk0 \<subseteq>\<^sub>m sdk1"
      "sys_modules st successor_name = Some sdk0 \<or>
         (sys_modules st successor_name = None \<and>
          (\<exists>extra. finder env successor_name = Loads sdk0 extra))"
      "log_kept st st'" "cache_kept st st'"
  using assms unfolding stmt_import_star_def
proof (cases rule: and_then_Inl)
  case 1
  note f = import_module_Inl [OF 1]
  from f(5) have "(finder env successor_name = NotInstalled \<and> e = ModuleNotFoundError successor_name) \<or>
       (\<exists>extra. finder env successor_name = Fails e extra)" by auto
  with f show thesis by (intro load_fails)
next
  case (2 sdk0 st1)
  note i = import_module_Inr [OF 2(1)]
  from 2(2) show thesis
  proof (cases rule: and_then_Inl)
    case 1
    note f = fromlist_star_Inl [OF 1 i(1)]
    from f i have lk: "log_kept st st'" and ck: "cache_kept st st'"
      by (auto intro: log_kept_trans cache_kept_trans)
    from f have "cache_kept st1 st'" by simp
    from cache_keptD [OF this i(1)] obtain sdk1 where
      "sys_modules st' successor_name = Some sdk1" "sdk0 \<subseteq>\<^sub>m sdk1" by blast
    with lk ck i(4) show thesis by (intro star_fails [of sdk1 sdk0])
  next
    case (2 sdk1 st2)
    note f = fromlist_star_Inr [OF 2(1) i(1)]
    from 2(2) have st': "st' = st2" by (auto split: sum.splits)
    from f i have lk: "log_kept st st'" and ck: "cache_kept st st'"
      unfolding st' by (auto intro: log_kept_trans cache_kept_trans)
    from f have "sys_modules st' successor_name = Some sdk1" "sdk0 \<subseteq>\<^sub>m sdk1"
      by (simp_all add: st')
    with lk ck i(4) show thesis by (intro star_fails [of sdk1 sdk0])
  qed
qed

lemma stmt_import_from_cached:
  assumes "sys_modules st successor_name = Some sdk"
  shows "stmt_import_from env g st =
     and_then (fromlist_names env successor_name [''RailScoreClient'', ''__version__''] sdk st)
       (\<lambda>sdk1 st2.
       case import_from successor_name sdk1 [''RailScoreClient'', ''__version__''] g of
         Inl e \<Rightarrow> (Inl e, st2)
       | Inr g1 \<Rightarrow>
           (Inr g1,
            record_event (FromImported successor_name [''RailScoreClient'', ''__version__'']) st2))"
  by (simp add: stmt_import_from_def import_module_cached [OF assms])

lemma stmt_import_from_Inr:
  assumes "stmt_import_from env g st = (Inr g', st')"
    and "sys_modules st successor_name = Some sdk1"
  obtains sdk2 c v where "sys_modules st' successor_name = Some sdk2"
    and "sdk1 \<subseteq>\<^sub>m sdk2"
    and "\<And>k. k \<noteq> ''RailScoreClient'' \<Longrightarrow> k \<noteq> ''__version__'' \<Longrightarrow> sdk2 k = sdk1 k"
    and "sdk2 ''RailScoreClient'' = Some c" and "sdk2 ''__version__'' = Some v"
    and "g' = g(''RailScoreClient'' \<mapsto> c, ''__version__'' \<mapsto> v)"
    and "trace st' = trace st @
           [FromImported successor_name [''RailScoreClient'', ''__version__'']]"
    and "shown st' = shown st" and "cache_kept st st'"
proof -
  from assms(1) obtain sdk2 st2 where
    fl: "fromlist_names env successor_name [''RailScoreClient'', ''__version__''] sdk1 st
           = (Inr sdk2, st2)" and
    r: "(case import_from successor_name sdk2 [''RailScoreClient'', ''__version__''] g of
         Inl e \<Rightarrow> (Inl e, st2)
       | Inr g1 \<Rightarrow>
           (Inr g1,
            record_event (FromImported successor_name [''RailScoreClient'', ''__version__'']) st2))
         = (Inr g', st')"
    unfolding stmt_import_from_cached [OF assms(2)] by (rule and_then_Inr)
  from r have fr: "import_from successor_name sdk2 [''RailScoreClient'', ''__version__''] g = Inr g'"
    and st': "st' = record_event (FromImported successor_name [''RailScoreClient'', ''__version__'']) st2"
    by (auto split: sum.splits)
  note f = fromlist_names_Inr [OF fl assms(2)]
  from fr obtain c v where c: "sdk2 ''RailScoreClient'' = Some c"
    and v: "sdk2 ''__version__'' = Some v"
    and g': "g' = g(''RailScoreClient'' \<mapsto> c, ''__version__'' \<mapsto> v)"
    by (rule import_from_two_Inr)
  show thesis
  proof (rule that [of sdk2 c v])
    show "sys_modules st' successor_name = Some sdk2" using f(1) by (simp add: st')
    show "sdk2 k = sdk1 k" if "k \<noteq> ''RailScoreClient''" "k \<noteq> ''__version__''" for k
      using f(5) [of k] that by simp
    show "trace st' = trace st @
           [FromImported successor_name [''RailScoreClient'', ''__version__'']]"
      using f(2) by (simp add: st' log_kept_def)
    show "shown st' = shown st" using f(2) by (simp add: st' log_kept_def)
    show "cache_kept st st'" using f(3) by (simp add: st')
  qed (fact f(4) c v g')+
qed

lemma stmt_import_from_Inl:
  assumes "stmt_import_from env g st = (Inl e, st')"
    and "sys_modules st successor_name = Some sdk1"
  shows "log_kept st st'" and "cache_kept st st'"
proof -
  from assms(1) have "log_kept st st' \<and> cache_kept st st'"
    unfolding stmt_import_from_cached [OF assms(2)]
  proof (cases rule: and_then_Inl)
    case 1
    from fromlist_names_Inl [OF 1 assms(2)] show ?thesis by simp
  next
    case (2 sdk2 st2)
    from 2(2) have "st' = st2" by (auto split: sum.splits)
    with fromlist_names_Inr(2,3) [OF 2(1) assms(2)] show ?thesis by simp
  qed
  then show "log_kept st st'" and "cache_kept st st'" by simp_all
qed

lemma exec_body_chain:
  "exec_body env g st =
     and_then (and_then (and_then (lines_23_to_39 env g st) (stmt_import_from env))
       stmt_bind_legacy) stmt_publish"
  by (simp add: exec_body_def lines_23_to_39_def)

lemma lines_23_to_39_Inr:
  assumes "lines_23_to_39 env g st = (Inr g2, st2)"
  obtains sdk0 sdk1 where "sys_modules st2 successor_name = Some sdk1"
    and "import_star successor_name sdk1 (g(''warnings'' \<mapsto> Module ''warnings'')) = Inr g2"
    and "trace st2 = trace st @
           [Imported ''warnings'', Warned DeprecationWarning deprecation_message 2,
            StarImported successor_name]"
    and "shown st2 = shown st @ notice_shown env"
    and "emission env = None"
    and "cache_kept st st2" and "sys_modules st2 ''warnings'' \<noteq> None"
    and "sys_modules st successor_name = Some sdk0 \<or>
         (sys_modules st successor_name = None \<and>
          (\<exists>extra. finder env successor_name = Loads sdk0 extra))"
    and "sdk0 \<subseteq>\<^sub>m sdk1"
proof -
  from assms obtain g1 st1 where s2: "stmt_import_star env g1 st1 = (Inr g2, st2)"
    and r1: "and_then (stmt_import_warnings env g st) (stmt_warn env) = (Inr g1, st1)"
    unfolding lines_23_to_39_def by (rule and_then_Inr)
  from r1 obtain g0 st0 where s1: "stmt_warn env g0 st0 = (Inr g1, st1)"
    and s0: "stmt_import_warnings env g st = (Inr g0, st0)"
    by (rule and_then_Inr)
  note i = stmt_import_warnings_result [OF s0]
  note w = stmt_warn_Inr [OF s1]
  from i(1) w(1) have g1: "g1 = g(''warnings'' \<mapsto> Module ''warnings'')" by simp
  from s2 obtain sdk0 sdk1 where
    sdk: "sys_modules st2 successor_name = Some sdk1"
    and star: "import_star successor_name sdk1 g1 = Inr g2"
    and tr2: "trace st2 = trace st1 @ [StarImported successor_name]"
    and sh2: "shown st2 = shown st1"
    and ck2: "cache_kept st1 st2"
    and prov: "sys_modules st1 successor_name = Some sdk0 \<or>
         (sys_modules st1 successor_name = None \<and>
          (\<exists>extra. finder env successor_name = Loads sdk0 extra))"
    and le: "sdk0 \<subseteq>\<^sub>m sdk1"
    by (rule stmt_import_star_Inr) (rule that, assumption+)
  have ck1: "cache_kept st st1" using i(4) w(4) by (simp add: cache_kept_def)
  have ck: "cache_kept st st2" using ck1 ck2 by (rule cache_kept_trans)
  have "sys_modules st1 ''warnings'' \<noteq> None" using i(5) w(4) by simp
  with ck2 have wc: "sys_modules st2 ''warnings'' \<noteq> None"
    by (auto dest: cache_keptD)
  show thesis
  proof (rule that [of sdk1 sdk0])
    show "trace st2 = trace st @
           [Imported ''warnings'', Warned DeprecationWarning deprecation_message 2,
            StarImported successor_name]"
      by (simp add: tr2 w(3) i(2))
    show "shown st2 = shown st @ notice_shown env" by (simp add: sh2 w(5) i(3))
    show "sys_modules st successor_name = Some sdk0 \<or>
         (sys_modules st successor_name = None \<and>
          (\<exists>extra. finder env successor_name = Loads sdk0 extra))"
      using prov i(6) [of successor_name] w(4) by simp
    show "import_star successor_name sdk1 (g(''warnings'' \<mapsto> Module ''warnings'')) = Inr g2"
      using star g1 by simp
  qed (fact sdk w(2) ck wc le)+
qed

lemma lines_23_to_39_Inl:
  assumes "lines_23_to_39 env g st = (Inl e, st')"
  obtains (at_warn) "emission env = Some e" "shown st' = shown st"
      "sys_modules st' successor_name = sys_modules st successor_name"
      "cache_kept st st'" "sys_modules st' ''warnings'' \<noteq> None"
      "trace st' = trace st @
           [Imported ''warnings'', Warned DeprecationWarning deprecation_message 2]"
  | (at_load) "emission env = None" "shown st' = shown st @ notice_shown env"
      "sys_modules st successor_name = None" "sys_modules st' successor_name = None"
      "(finder env successor_name = NotInstalled \<and> e = ModuleNotFoundError successor_name) \<or>
       (\<exists>extra. finder env successor_name = Fails e extra)"
      "cache_kept st st'" "sys_modules st' ''warnings'' \<noteq> None"
      "trace st' = trace st @
           [Imported ''warnings'', Warned DeprecationWarning deprecation_message 2]"
  | (at_star) sdk0 sdk1 where "emission env = None" "shown st' = shown st @ notice_shown env"
      "sys_modules st' successor_name = Some sdk1" "sdk0 \<subseteq>\<^sub>m sdk1"
      "sys_modules st successor_name = Some sdk0 \<or>
         (sys_modules st successor_name = None \<and>
          (\<exists>extra. finder env successor_name = Loads sdk0 extra))"
      "cache_kept st st'" "sys_modules st' ''warnings'' \<noteq> None"
      "trace st' = trace st @
           [Imported ''warnings'', Warned DeprecationWarning deprecation_message 2]"
proof -
  obtain g0 st0 where s0: "stmt_import_warnings env g st = (Inr g0, st0)"
    by (simp add: stmt_import_warnings_def)
  note i = stmt_import_warnings_result [OF s0]
  from assms have "and_then (stmt_warn env g0 st0) (stmt_import_star env) = (Inl e, st')"
    by (simp add: lines_23_to_39_def s0)
  then show thesis
  proof (cases rule: and_then_Inl)
    case 1
    note w = stmt_warn_Inl [OF 1]
    show thesis
    proof (rule at_warn)
      show "sys_modules st' successor_name = sys_modules st successor_name"
        using i(6) [of successor_name] w(3) by simp
      show "cache_kept st st'" using i(4) w(3) by (simp add: cache_kept_def)
      show "sys_modules st' ''warnings'' \<noteq> None" using i(5) w(3) by simp
    qed (simp_all add: w i)
  next
    case (2 g1 st1)
    note w = stmt_warn_Inr [OF 2(1)]
    have ck1: "cache_kept st st1" using i(4) w(4) by (simp add: cache_kept_def)
    have wc1: "sys_modules st1 ''warnings'' \<noteq> None" using i(5) w(4) by simp
    have tr1: "trace st1 = trace st @
           [Imported ''warnings'', Warned DeprecationWarning deprecation_message 2]"
      by (simp add: w(3) i(2))
    have sh1: "shown st1 = shown st @ notice_shown env" by (simp add: w(5) i(3))
    have s1: "sys_modules st1 successor_name = sys_modules st successor_name"
      using i(6) [of successor_name] w(4) by simp
    from 2(2) show thesis
    proof (cases rule: stmt_import_star_Inl)
      case load_fails
      show thesis
      proof (rule at_load)
        show "cache_kept st st'" using ck1 load_fails(4) by (rule cache_kept_trans)
        show "sys_modules st' ''warnings'' \<noteq> None"
          using wc1 load_fails(4) by (auto dest: cache_keptD)
        show "sys_modules st successor_name = None" using load_fails(1) s1 by simp
      qed (use load_fails w(2) tr1 sh1 in \<open>simp_all add: log_kept_def\<close>)
    next
      case (star_fails sdk0 sdk1)
      show thesis
      proof (rule at_star [of sdk1 sdk0])
        show "cache_kept st st'" using ck1 star_fails(5) by (rule cache_kept_trans)
        show "sys_modules st' ''warnings'' \<noteq> None"
          using wc1 star_fails(5) by (auto dest: cache_keptD)
        show "sys_modules st successor_name = Some sdk0 \<or>
         (sys_modules st successor_name = None \<and>
          (\<exists>extra. finder env successor_name = Loads sdk0 extra))"
          using star_fails(3) s1 by simp
      qed (use star_fails w(2) tr1 sh1 in \<open>simp_all add: log_kept_def\<close>)
    qed
  qed
qed

lemma exec_body_Inr:
  assumes "exec_body env g st = (Inr m, st')"
  obtains sdk c v where
    "sys_modules st' successor_name = Some sdk"
    "sdk ''RailScoreClient'' = Some c" "sdk ''__version__'' = Some v"
    "m ''RailScoreClient'' = Some c" "m ''RailScore'' = Some c" "m ''__version__'' = Some v"
    "m ''__all__'' = Some (StrList export_list)"
    "trace st' = trace st @ full_trace c"
    "emission env = None"
    "shown st' = shown st @ notice_shown env"
    "cache_kept st st'" "sys_modules st' ''warnings'' \<noteq> None"
    "\<And>k. k \<in> export_set sdk \<Longrightarrow> k \<noteq> ''RailScore'' \<Longrightarrow> k \<noteq> ''__all__'' \<Longrightarrow> m k = sdk k"
proof -
  from assms obtain g4 st4 where s5: "stmt_publish g4 st4 = (Inr m, st')"
    and r4: "and_then (and_then (lines_23_to_39 env g st) (stmt_import_from env))
       stmt_bind_legacy = (Inr g4, st4)"
    unfolding exec_body_chain by (rule and_then_Inr)
  from r4 obtain g3 st3 where s4: "stmt_bind_legacy g3 st3 = (Inr g4, st4)"
    and r3: "and_then (lines_23_to_39 env g st) (stmt_import_from env) = (Inr g3, st3)"
    by (rule and_then_Inr)
  from r3 obtain g2 st2 where s3: "stmt_import_from env g2 st2 = (Inr g3, st3)"
    and r2: "lines_23_to_39 env g st = (Inr g2, st2)"
    by (rule and_then_Inr)
  from r2 obtain sdk0 sdk1 where
    sdk1: "sys_modules st2 successor_name = Some sdk1"
    and star: "import_star successor_name sdk1 (g(''warnings'' \<mapsto> Module ''warnings'')) = Inr g2"
    and tr2: "trace st2 = trace st @
           [Imported ''warnings'', Warned DeprecationWarning deprecation_message 2,
            StarImported successor_name]"
    and sh2: "shown st2 = shown st @ notice_shown env"
    and em: "emission env = None"
    and ck2: "cache_kept st st2" and wc2: "sys_modules st2 ''warnings'' \<noteq> None"
    by (rule lines_23_to_39_Inr) (rule that, assumption+)
  from s3 sdk1 obtain sdk c v where
    sdk: "sys_modules st3 successor_name = Some sdk"
    and le: "sdk1 \<subseteq>\<^sub>m sdk"
    and same: "\<And>k. k \<noteq> ''RailScoreClient'' \<Longrightarrow> k \<noteq> ''__version__'' \<Longrightarrow> sdk k = sdk1 k"
    and c: "sdk ''RailScoreClient'' = Some c" and v: "sdk ''__version__'' = Some v"
    and g3: "g3 = g2(''RailScoreClient'' \<mapsto> c, ''__version__'' \<mapsto> v)"
    and tr3: "trace st3 = trace st2 @
           [FromImported successor_name [''RailScoreClient'', ''__version__'']]"
    and sh3: "shown st3 = shown st2" and ck3: "cache_kept st2 st3"
    by (rule stmt_import_from_Inr) (rule that, assumption+)
  from s4 g3 have g4: "g4 = g3(''RailScore'' \<mapsto> c)"
    and st4: "st4 = record_event (Assigned ''RailScore'' c) st3"
    by (auto simp: stmt_bind_legacy_def)
  from s5 have m: "m = g4(''__all__'' \<mapsto> StrList export_list)"
    and st': "st' = record_event (Assigned ''__all__'' (StrList export_list)) st4"
    by (auto simp: stmt_publish_def)
  have all_same: "sdk ''__all__'' = sdk1 ''__all__''" by (rule same) simp_all
  have copied: "m k = sdk k"
    if k: "k \<in> export_set sdk" "k \<noteq> ''RailScore''" "k \<noteq> ''__all__''" for k
  proof (cases "k = ''RailScoreClient'' \<or> k = ''__version__''")
    case True
    then show ?thesis using c v by (auto simp: m g4 g3)
  next
    case False
    then have eq: "sdk k = sdk1 k" by (intro same) simp_all
    from k(1) have "k \<in> export_set sdk1"
      unfolding export_set_def all_same
      by (auto simp: eq split: option.splits pyval.splits)
    from import_star_Inr [OF star this] False k(2,3) show ?thesis
      by (simp add: m g4 g3 eq)
  qed
  have ck: "cache_kept st st3" using ck2 ck3 by (rule cache_kept_trans)
  from wc2 ck3 have wc: "sys_modules st3 ''warnings'' \<noteq> None" by (auto dest: cache_keptD)
  show thesis
  proof (rule that [of sdk c v])
    show "sys_modules st' successor_name = Some sdk" by (simp add: st' st4 sdk)
    show "trace st' = trace st @ full_trace c"
      by (simp add: st' st4 tr3 tr2 full_trace_def)
    show "shown st' = shown st @ notice_shown env" by (simp add: st' st4 sh3 sh2)
    show "cache_kept st st'" using ck by (simp add: st' st4)
    show "sys_modules st' ''warnings'' \<noteq> None" using wc by (simp add: st' st4)
    show "m k = sdk k" if "k \<in> export_set sdk" "k \<noteq> ''RailScore''" "k \<noteq> ''__all__''" for k
      using that by (rule copied)
  qed (simp_all add: m g4 g3 c v em)
qed

lemma exec_body_Inl:
  assumes "exec_body env g st = (Inl e, st')"
  obtains (at_warn) "emission env = Some e" "shown st' = shown st"
      "sys_modules st' successor_name = sys_modules st successor_name"
      "cache_kept st st'" "sys_modules st' ''warnings'' \<noteq> None"
      "trace st' = trace st @
           [Imported ''warnings'', Warned DeprecationWarning deprecation_message 2]"
  | (at_load) "emission env = None" "shown st' = shown st @ notice_shown env"
      "sys_modules st successor_name = None" "sys_modules st' successor_name = None"
      "(finder env successor_name = NotInstalled \<and> e = ModuleNotFoundError successor_name) \<or>
       (\<exists>extra. finder env successor_name = Fails e extra)"
      "cache_kept st st'" "sys_modules st' ''warnings'' \<noteq> None"
      "trace st' = trace st @
           [Imported ''warnings'', Warned DeprecationWarning deprecation_message 2]"
  | (at_star) sdk0 sdk1 where "emission env = None" "shown st' = shown st @ notice_shown env"
      "sys_modules st' successor_name = Some sdk1" "sdk0 \<subseteq>\<^sub>m sdk1"
      "sys_modules st successor_name = Some sdk0 \<or>
         (sys_modules st successor_name = None \<and>
          (\<exists>extra. finder env successor_name = Loads sdk0 extra))"
      "cache_kept st st'" "sys_modules st' ''warnings'' \<noteq> None"
      "trace st' = trace st @
           [Imported ''warnings'', Warned DeprecationWarning deprecation_message 2]"
  | (at_names) sdk0 sdk1 where "emission env = None" "shown st' = shown st @ notice_shown env"
      "sys_modules st' successor_name = Some sdk1" "sdk0 \<subseteq>\<^sub>m sdk1"
      "sys_modules st successor_name = Some sdk0 \<or>
         (sys_modules st successor_name = None \<and>
          (\<exists>extra. finder env successor_name = Loads sdk0 extra))"
      "cache_kept st st'" "sys_modules st' ''warnings'' \<noteq> None"
      "trace st' = trace st @
           [Imported ''warnings'', Warned DeprecationWarning deprecation_message 2,
            StarImported successor_name]"
proof -
  let ?r3 = "and_then (lines_23_to_39 env g st) (stmt_import_from env)"
  let ?r4 = "and_then ?r3 stmt_bind_legacy"
  from assms have "and_then ?r4 stmt_publish = (Inl e, st')"
    by (simp add: exec_body_chain)
  then have "?r4 = (Inl e, st')"
    by (rule and_then_Inl) (simp_all add: stmt_publish_def)
  then have r3: "?r3 = (Inl e, st')"
  proof (cases rule: and_then_Inl)
    case 1
    then show ?thesis .
  next
    case (2 g3 st3)
    from 2(2) have none: "g3 ''RailScoreClient'' = None"
      by (auto simp: stmt_bind_legacy_def split: option.splits)
    from 2(1) obtain g2 st2 where l: "lines_23_to_39 env g st = (Inr g2, st2)"
      and f: "stmt_import_from env g2 st2 = (Inr g3, st3)"
      by (rule and_then_Inr)
    from l obtain sdk1 where "sys_modules st2 successor_name = Some sdk1"
      by (rule lines_23_to_39_Inr) (rule that, assumption+)
    with f obtain c v where "g3 = g2(''RailScoreClient'' \<mapsto> c, ''__version__'' \<mapsto> v)"
      by (rule stmt_import_from_Inr) (rule that, assumption+)
    then have "g3 ''RailScoreClient'' \<noteq> None" by simp
    with none show ?thesis by simp
  qed
  then show thesis
  proof (cases rule: and_then_Inl)
    case 1
    then show thesis
    proof (cases rule: lines_23_to_39_Inl)
      case at_warn
      then show ?thesis by (intro that(1))
    next
      case at_load
      then show ?thesis by (intro that(2))
    next
      case (at_star sdk0 sdk1)
      then show ?thesis by (intro that(3) [of sdk1 sdk0])
    qed
  next
    case (2 g2 st2)
    from 2(1) obtain sdk0 sdk1 where
      sdk1: "sys_modules st2 successor_name = Some sdk1"
      and tr2: "trace st2 = trace st @
           [Imported ''warnings'', Warned DeprecationWarning deprecation_message 2,
            StarImported successor_name]"
      and sh2: "shown st2 = shown st @ notice_shown env"
      and em: "emission env = None"
      and ck2: "cache_kept st st2" and wc2: "sys_modules st2 ''warnings'' \<noteq> None"
      and prov: "sys_modules st successor_name = Some sdk0 \<or>
         (sys_modules st successor_name = None \<and>
          (\<exists>extra. finder env successor_name = Loads sdk0 extra))"
      and le: "sdk0 \<subseteq>\<^sub>m sdk1"
      by (rule lines_23_to_39_Inr) (rule that, assumption+)
    note f = stmt_import_from_Inl [OF 2(2) sdk1]
    from cache_keptD [OF f(2) sdk1] obtain sdk2 where
      sdk2: "sys_modules st' successor_name = Some sdk2" and le2: "sdk1 \<subseteq>\<^sub>m sdk2"
      by blast
    show thesis
    proof (rule that(4) [of sdk2 sdk0])
      show "sdk0 \<subseteq>\<^sub>m sdk2" using le le2 by (rule map_le_trans)
      show "cache_kept st st'" using ck2 f(2) by (rule cache_kept_trans)
      show "sys_modules st' ''warnings'' \<noteq> None" using wc2 f(2) by (auto dest: cache_keptD)
      show "trace st' = trace st @
           [Imported ''warnings'', Warned DeprecationWarning deprecation_message 2,
            StarImported successor_name]"
        using f(1) tr2 by (simp add: log_kept_def)
      show "shown st' = shown st @ notice_shown env" using f(1) sh2 by (simp add: log_kept_def)
    qed (fact em sdk2 prov)+
  qed
qed

section \<open>Importing the module\<close>

lemma import_shim_cached:
  "sys_modules st shim_name = Some m \<Longrightarrow> import_shim env st = (Inr m, st)"
  by (simp add: import_shim_def)

lemma import_shim_Inr:
  assumes "sys_modules st shim_name = None" and "import_shim env st = (Inr m, st')"
  obtains st1 where "exec_body env (module_attrs env) st = (Inr m, st1)"
    and "st' = st1\<lparr>sys_modules := (sys_modules st1)(shim_name \<mapsto> m)\<rparr>"
  using assms by (auto simp: import_shim_def split: prod.splits sum.splits)

lemma import_shim_Inl:
  assumes "sys_modules st shim_name = None" and "import_shim env st = (Inl e, st')"
  obtains st1 where "exec_body env (module_attrs env) st = (Inl e, st1)"
    and "st' = st1\<lparr>sys_modules := (sys_modules st1)(shim_name := None)\<rparr>"
  using assms by (auto simp: import_shim_def split: prod.splits sum.splits)

lemma import_shim_result:
  obtains (ok) m st' where "import_shim env st = (Inr m, st')"
  | (failed) e st' where "import_shim env st = (Inl e, st')"
  by (metis surj_pair sum.exhaust)

lemma export_set_published:
  "m ''__all__'' = Some (StrList export_list) \<Longrightarrow> export_set m = {''RailScore'', ''RailScoreClient''}"
  by (auto simp: export_set_def export_list_def)

lemma full_trace_counts:
  "length (filter is_deprecation_notice (full_trace c)) = 1"
  "length (filter (assigns ''__all__'') (full_trace c)) = 1"
  by (simp_all add: full_trace_def)

lemma emission_Some_notice_shown: "emission env = Some e \<Longrightarrow> notice_shown env = []"
  by (auto simp: emission_def notice_shown_def split: action.splits)

lemma lines_23_to_39_succeed:
  assumes "emission env = None"
    and "sys_modules st successor_name = Some sdk \<or>
         (sys_modules st successor_name = None \<and> finder env successor_name = Loads sdk extra)"
    and "complete sdk"
  shows "\<exists>g2 st2. lines_23_to_39 env g st = (Inr g2, st2) \<and>
           sys_modules st2 successor_name = Some sdk"
proof -
  obtain g0 st0 where s0: "stmt_import_warnings env g st = (Inr g0, st0)"
    by (simp add: stmt_import_warnings_def)
  note i = stmt_import_warnings_result [OF s0]
  obtain st1 where s1: "stmt_warn env g0 st0 = (Inr g0, st1)"
    using stmt_warn_emission [of env g0 st0] assms(1)
    by (cases "stmt_warn env g0 st0") simp
  note w = stmt_warn_Inr [OF s1]
  from assms(2) i(6) [of successor_name] w(4)
  have av: "sys_modules st1 successor_name = Some sdk \<or>
         (sys_modules st1 successor_name = None \<and> finder env successor_name = Loads sdk extra)"
    by simp
  then obtain st2 where im: "import_module env successor_name st1 = (Inr sdk, st2)"
    by (auto simp: import_module_def Let_def)
  note m = import_module_Inr [OF im]
  from import_star_complete [OF assms(3)] obtain g2 where
    star: "import_star successor_name sdk g0 = Inr g2" by blast
  have "stmt_import_star env g0 st1 = (Inr g2, record_event (StarImported successor_name) st2)"
    by (simp add: stmt_import_star_def im fromlist_star_complete [OF assms(3)] star)
  then have "lines_23_to_39 env g st = (Inr g2, record_event (StarImported successor_name) st2)"
    by (simp add: lines_23_to_39_def s0 s1)
  with m(1) show ?thesis by simp
qed

lemma exec_body_succeeds:
  assumes "emission env = None"
    and "sys_modules st successor_name = Some sdk \<or>
         (sys_modules st successor_name = None \<and> finder env successor_name = Loads sdk extra)"
    and "complete sdk"
  shows "\<exists>m st'. exec_body env g st = (Inr m, st') \<and> m ''RailScore'' = sdk ''RailScoreClient''"
proof -
  from lines_23_to_39_succeed [OF assms] obtain g2 st2 where
    l: "lines_23_to_39 env g st = (Inr g2, st2)" and c: "sys_modules st2 successor_name = Some sdk"
    by blast
  from assms(3) obtain cl v where cl: "sdk ''RailScoreClient'' = Some cl"
    and v: "sdk ''__version__'' = Some v"
    by (auto simp: complete_def)
  have fl: "fromlist_names env successor_name [''RailScoreClient'', ''__version__''] sdk st2
      = (Inr sdk, st2)"
    by (simp add: fromlist_names_def cl v)
  have "stmt_import_from env g2 st2 =
      (Inr (g2(''RailScoreClient'' \<mapsto> cl, ''__version__'' \<mapsto> v)),
       record_event (FromImported successor_name [''RailScoreClient'', ''__version__'']) st2)"
    by (simp add: stmt_import_from_cached [OF c] fl cl v)
  then show ?thesis
    by (simp add: exec_body_chain l stmt_bind_legacy_def stmt_publish_def cl)
qed

section \<open>Concrete loads, computed\<close>

lemmas body_defs =
  import_shim_def exec_body_def and_then_def stmt_import_warnings_def stmt_warn_def
  stmt_import_star_def stmt_import_from_def stmt_bind_legacy_def stmt_publish_def
  warn_def import_module_def import_star_def record_event_def cache_more_def
  fromlist_star_def fromlist_names_def import_submodule_def submodule_name_def
  shim_name_def successor_name_def Let_def

lemma fresh_has_no_shim: "sys_modules st_fresh shim_name = None"
  by (simp add: st_fresh_def)

lemma fresh_has_no_successor: "sys_modules st_fresh successor_name = None"
  by (simp add: st_fresh_def)

lemma successor_name_literal: "successor_name = ''rail_score_sdk''"
  by (simp add: successor_name_def)

lemma run_installed: "import_shim env_installed st_fresh = (Inr m_loaded, st_loaded)"
  by (simp add: body_defs env_installed_def st_fresh_def sdk_module_def m_loaded_def
      st_loaded_def full_trace_def export_list_def)

lemma run_missing:
  "fst (import_shim env_missing st_fresh) = Inl (ModuleNotFoundError ''rail_score_sdk'')"
  "shown (snd (import_shim env_missing st_fresh)) = [(DeprecationWarning, deprecation_message)]"
  "trace (snd (import_shim env_missing st_fresh)) =
     [Imported ''warnings'', Warned DeprecationWarning deprecation_message 2]"
  "sys_modules (snd (import_shim env_missing st_fresh)) ''rail_score'' = None"
  by (simp_all add: body_defs env_missing_def env_installed_def st_fresh_def)

lemma run_strict:
  "fst (import_shim env_strict st_fresh) =
     Inl (WarningAsError DeprecationWarning deprecation_message)"
  "sys_modules (snd (import_shim env_strict st_fresh)) shim_name = None"
  "sys_modules (snd (import_shim env_strict st_fresh)) successor_name = None"
  by (simp_all add: body_defs env_strict_def env_installed_def st_fresh_def)

lemma run_strict_missing:
  "fst (import_shim env_strict_missing st_fresh) =
     Inl (WarningAsError DeprecationWarning deprecation_message)"
  by (simp add: body_defs env_strict_missing_def env_missing_def env_installed_def st_fresh_def)

lemma run_closed_stderr:
  "fst (import_shim env_closed_stderr st_fresh) = Inl (OtherException ''ValueError'')"
  by (simp add: body_defs env_closed_stderr_def env_installed_def st_fresh_def)

lemma run_broken:
  "fst (import_shim env_broken st_fresh) = Inl (OtherException ''SyntaxError'')"
  "sys_modules (snd (import_shim env_broken st_fresh)) shim_name = None"
  by (simp_all add: body_defs env_broken_def env_installed_def st_fresh_def)

lemma run_incomplete:
  "fst (import_shim env_incomplete st_fresh) = Inl (ImportError ''__version__'' ''rail_score_sdk'')"
  "shown (snd (import_shim env_incomplete st_fresh)) = [(DeprecationWarning, deprecation_message)]"
  "trace (snd (import_shim env_incomplete st_fresh)) =
     [Imported ''warnings'', Warned DeprecationWarning deprecation_message 2,
      StarImported ''rail_score_sdk'']"
  "sys_modules (snd (import_shim env_incomplete st_fresh)) ''rail_score'' = None"
  "sys_modules (snd (import_shim env_incomplete st_fresh)) ''rail_score_sdk'' = Some sdk_incomplete"
  "sys_modules (snd (import_shim env_incomplete st_fresh)) ''warnings'' = Some [''warn'' \<mapsto> Ref 0]"
  by (simp_all add: body_defs env_incomplete_def env_installed_def st_fresh_def sdk_incomplete_def)



lemma m_loaded_values:
  "m_loaded ''RailScore'' = Some (Ref 1)" "m_loaded ''RailScoreClient'' = Some (Ref 1)"
  "m_loaded ''__version__'' = Some (Ref 2)" "m_loaded ''evaluate'' = Some (Ref 3)"
  "m_loaded ''_private'' = None" "m_loaded ''warnings'' = Some (Module ''warnings'')"
  "m_loaded ''__all__'' = Some (StrList [''RailScore'', ''RailScoreClient''])"
  by (simp_all add: m_loaded_def bind_public_def sdk_module_def export_list_def)


lemma st_loaded_log:
  "trace st_loaded = full_trace (Ref 1)"
  "shown st_loaded = [(DeprecationWarning, deprecation_message)]"
  by (simp_all add: st_loaded_def)

lemma st_fresh_log: "trace st_fresh = []" "shown st_fresh = []"
  by (simp_all add: st_fresh_def)

lemma sdk_module_values:
  "sdk_module ''RailScoreClient'' = Some (Ref 1)" "sdk_module ''__version__'' = Some (Ref 2)"
  "sdk_module ''evaluate'' = Some (Ref 3)" "sdk_module ''__all__'' = None"
  by (simp_all add: sdk_module_def)

lemma emissions:
  "emission env_installed = None" "emission env_missing = None" "emission env_broken = None"
  "emission env_incomplete = None"
  "emission env_strict = Some (WarningAsError DeprecationWarning deprecation_message)"
  "emission env_closed_stderr = Some (OtherException ''ValueError'')"
  by (simp_all add: emission_def env_installed_def env_missing_def env_broken_def
      env_incomplete_def env_strict_def env_closed_stderr_def)

lemma finders:
  "finder env_installed successor_name = Loads sdk_module [''httpx'' \<mapsto> Map.empty]"
  "finder env_strict successor_name = Loads sdk_module [''httpx'' \<mapsto> Map.empty]"
  "finder env_missing successor_name = NotInstalled"
  "finder env_strict_missing successor_name = NotInstalled"
  "finder env_broken successor_name = Fails (OtherException ''SyntaxError'') [''httpx'' \<mapsto> Map.empty]"
  "finder env_incomplete successor_name = Loads sdk_incomplete Map.empty"
  "finder env_package successor_name = Loads sdk_package Map.empty"
  by (simp_all add: env_installed_def env_missing_def env_broken_def env_strict_missing_def
      env_incomplete_def env_strict_def env_package_def successor_name_def)

lemma sdk_module_complete: "complete sdk_module"
  by (simp add: complete_def sdk_module_def)

section \<open>The claims\<close>



text \<open>
  Claim C2, as the code has it. When the successor module is not in the module cache and
  is not installed, or its body raises, importing \<^verbatim>\<open>rail_score\<close> raises and provides no
  client: the import returns no module, and neither \<^verbatim>\<open>rail_score\<close> nor the successor is
  in the cache afterwards. The exception is an import error on one path only: it is
  \<open>ModuleNotFoundError\<close> when the successor is not installed and line 25 did not raise.
  When the successor's body raises, the exception is the successor's own, of whatever
  class; when line 25 raises, it is the exception of line 25.
\<close>

theorem missing_successor_fails_load:
  assumes "sys_modules st shim_name = None" and "sys_modules st successor_name = None"
    and "finder env successor_name = NotInstalled \<or> finder env successor_name = Fails e0 extra"
  shows "fst (import_shim env st) =
           Inl (case emission env of
                  Some e \<Rightarrow> e
                | None \<Rightarrow>
                    if finder env successor_name = NotInstalled
                    then ModuleNotFoundError successor_name else e0) \<and>
         sys_modules (snd (import_shim env st)) shim_name = None \<and>
         sys_modules (snd (import_shim env st)) successor_name = None \<and>
         (emission env = None \<and> finder env successor_name = NotInstalled \<longrightarrow>
            (\<exists>e. fst (import_shim env st) = Inl e \<and> is_import_error e))"
proof (cases rule: import_shim_result [of env st])
  case (ok m st')
  from assms(1) ok obtain st1 where "exec_body env (module_attrs env) st = (Inr m, st1)"
    by (rule import_shim_Inr)
  then obtain sdk0 where "sys_modules st successor_name = Some sdk0 \<or>
         (sys_modules st successor_name = None \<and>
          (\<exists>extra. finder env successor_name = Loads sdk0 extra))"
    unfolding exec_body_chain
    by (elim and_then_Inr lines_23_to_39_Inr) (rule that)
  with assms(2,3) show ?thesis by auto
next
  case (failed e st')
  from assms(1) failed obtain st1 where body: "exec_body env (module_attrs env) st = (Inl e, st1)"
    and st': "st' = st1\<lparr>sys_modules := (sys_modules st1)(shim_name := None)\<rparr>"
    by (rule import_shim_Inl)
  from body show ?thesis
  proof (cases rule: exec_body_Inl)
    case at_warn
    then show ?thesis using assms(2) by (simp add: failed st')
  next
    case at_load
    then show ?thesis using assms(2,3) by (auto simp: failed st')
  next
    case (at_star sdk0 sdk1)
    then show ?thesis using assms(2,3) by auto
  next
    case (at_names sdk0 sdk1)
    then show ?thesis using assms(2,3) by auto
  qed
qed

theorem missing_successor_fails_load_witness:
  "sys_modules st_fresh shim_name = None \<and>
   sys_modules st_fresh successor_name = None \<and>
   finder env_missing successor_name = NotInstalled \<and>
   emission env_missing = None \<and>
   fst (import_shim env_missing st_fresh) = Inl (ModuleNotFoundError ''rail_score_sdk'') \<and>
   is_import_error (ModuleNotFoundError ''rail_score_sdk'') \<and>
   sys_modules (snd (import_shim env_missing st_fresh)) shim_name = None \<and>
   sys_modules (snd (import_shim env_missing st_fresh)) successor_name = None \<and>
   finder env_broken successor_name =
     Fails (OtherException ''SyntaxError'') [''httpx'' \<mapsto> Map.empty] \<and>
   fst (import_shim env_broken st_fresh) = Inl (OtherException ''SyntaxError'') \<and>
   sys_modules (snd (import_shim env_broken st_fresh)) shim_name = None"
proof -
  note a = finders(3) and b = finders(5)
  from missing_successor_fails_load [OF fresh_has_no_shim fresh_has_no_successor disjI1 [OF a]]
  have ta0: "fst (import_shim env_missing st_fresh) = Inl (ModuleNotFoundError successor_name)"
    and tb: "sys_modules (snd (import_shim env_missing st_fresh)) shim_name = None"
    and tb': "sys_modules (snd (import_shim env_missing st_fresh)) successor_name = None"
    by (simp_all add: a emissions)
  from ta0 have ta: "fst (import_shim env_missing st_fresh) = Inl (ModuleNotFoundError ''rail_score_sdk'')"
    by (simp only: successor_name_literal)
  from missing_successor_fails_load [OF fresh_has_no_shim fresh_has_no_successor disjI2 [OF b]]
  have tc: "fst (import_shim env_broken st_fresh) = Inl (OtherException ''SyntaxError'')"
    and td: "sys_modules (snd (import_shim env_broken st_fresh)) shim_name = None"
    by (simp_all add: b emissions)
  have ie: "is_import_error (ModuleNotFoundError ''rail_score_sdk'')" by simp
  from fresh_has_no_shim fresh_has_no_successor a emissions(2) ta ie tb tb' b tc td
  show ?thesis by (intro conjI)
qed

text \<open>
  With the successor not installed and the filter action "error", the load fails with the
  warning, which is no import error; with a successor whose body raises a
  \<^verbatim>\<open>SyntaxError\<close>, it fails with that exception.
\<close>

theorem missing_successor_not_import_error:
  "finder env_strict_missing successor_name = NotInstalled \<and>
   fst (import_shim env_strict_missing st_fresh) =
     Inl (WarningAsError DeprecationWarning deprecation_message) \<and>
   is_import_error (WarningAsError DeprecationWarning deprecation_message) = False \<and>
   finder env_broken successor_name =
     Fails (OtherException ''SyntaxError'') [''httpx'' \<mapsto> Map.empty] \<and>
   fst (import_shim env_broken st_fresh) = Inl (OtherException ''SyntaxError'') \<and>
   is_import_error (OtherException ''SyntaxError'') = False"
  by (simp add: finders run_strict_missing run_broken)

text \<open>
  Claim C3. After a successful load the names the module publishes are exactly
  \<^verbatim>\<open>RailScore\<close> and \<^verbatim>\<open>RailScoreClient\<close>: \<^verbatim>\<open>__all__\<close> is the list of these two. The load assigns
  \<^verbatim>\<open>__all__\<close> once, and importing the module again returns the same module and changes
  nothing.
\<close>

theorem export_set_is_two_names:
  assumes "sys_modules st shim_name = None" and "import_shim env st = (Inr m, st')"
  shows "export_set m = {''RailScore'', ''RailScoreClient''} \<and>
         m ''__all__'' = Some (StrList [''RailScore'', ''RailScoreClient'']) \<and>
         length (filter (assigns ''__all__'') (drop (length (trace st)) (trace st'))) = 1 \<and>
         import_shim env st' = (Inr m, st')"
proof -
  from assms obtain st1 where body: "exec_body env (module_attrs env) st = (Inr m, st1)"
    and st': "st' = st1\<lparr>sys_modules := (sys_modules st1)(shim_name \<mapsto> m)\<rparr>"
    by (rule import_shim_Inr)
  from body show ?thesis
  proof (rule exec_body_Inr)
    fix sdk c v
    assume all: "m ''__all__'' = Some (StrList export_list)"
      and tr: "trace st1 = trace st @ full_trace c"
    have "sys_modules st' shim_name = Some m" by (simp add: st')
    then have "import_shim env st' = (Inr m, st')" by (rule import_shim_cached)
    with all tr show ?thesis
      by (simp add: st' export_set_published full_trace_counts) (simp add: export_list_def)
  qed
qed

theorem export_set_is_two_names_witness:
  "sys_modules st_fresh shim_name = None \<and>
   import_shim env_installed st_fresh = (Inr m_loaded, st_loaded) \<and>
   export_set m_loaded = {''RailScore'', ''RailScoreClient''} \<and>
   m_loaded ''__all__'' = Some (StrList [''RailScore'', ''RailScoreClient'']) \<and>
   length (filter (assigns ''__all__'') (trace st_loaded)) = 1 \<and>
   import_shim env_installed st_loaded = (Inr m_loaded, st_loaded)"
proof -
  from export_set_is_two_names [OF fresh_has_no_shim run_installed]
  have "export_set m_loaded = {''RailScore'', ''RailScoreClient''}"
    and "m_loaded ''__all__'' = Some (StrList [''RailScore'', ''RailScoreClient''])"
    and "length (filter (assigns ''__all__'') (trace st_loaded)) = 1"
    and "import_shim env_installed st_loaded = (Inr m_loaded, st_loaded)"
    by (simp_all add: st_fresh_log)
  with fresh_has_no_shim run_installed show ?thesis
    by (intro conjI)
qed

text \<open>
  Claim C4, as the code has it. The text that line 25 passes to \<^verbatim>\<open>warnings.warn\<close> contains
  the uninstall command, the install command, the new import statement and the link to the
  PyPI page. It contains neither an import from \<^verbatim>\<open>rail_score\<close> (the old import statement)
  nor the link to the repository: those stand in the module's docstring only. The warning
  issued is this text, in category \<open>DeprecationWarning\<close>, whatever the filter does with it.
\<close>

theorem notice_text_contents:
  "occurs_in ''pip uninstall rail-score'' deprecation_message \<and>
   occurs_in ''pip install rail-score-sdk'' deprecation_message \<and>
   occurs_in ''from rail_score_sdk import RailScoreClient'' deprecation_message \<and>
   occurs_in ''https://pypi.org/project/rail-score-sdk/'' deprecation_message \<and>
   \<not> occurs_in ''from rail_score import'' deprecation_message \<and>
   \<not> occurs_in ''https://github.com/RAILethicsHub/rail-score/tree/main/python'' deprecation_message \<and>
   trace (snd (stmt_warn env g st)) =
     trace st @ [Warned DeprecationWarning deprecation_message 2]"
proof -
  have "occurs_in ''pip uninstall rail-score'' deprecation_message" by code_simp
  moreover have "occurs_in ''pip install rail-score-sdk'' deprecation_message" by code_simp
  moreover have "occurs_in ''from rail_score_sdk import RailScoreClient'' deprecation_message"
    by code_simp
  moreover have "occurs_in ''https://pypi.org/project/rail-score-sdk/'' deprecation_message"
    by code_simp
  moreover have "\<not> occurs_in ''from rail_score import'' deprecation_message" by code_simp
  moreover have
    "\<not> occurs_in ''https://github.com/RAILethicsHub/rail-score/tree/main/python'' deprecation_message"
    by code_simp
  moreover have "trace (snd (stmt_warn env g st)) =
     trace st @ [Warned DeprecationWarning deprecation_message 2]"
    by (simp add: stmt_warn_def warn_def and_then_def Let_def record_event_def
        split: action.splits option.splits)
  ultimately show ?thesis by blast
qed

text \<open>
  The old import statement of the docstring, \<^verbatim>\<open>from rail_score import RailScore\<close>, does not
  occur in the text of the warning.
\<close>

theorem notice_lacks_old_import:
  "occurs_in ''from rail_score import RailScore'' deprecation_message = False"
  by code_simp



text \<open>
  Claim C6. A successful load issues exactly one warning of category
  \<open>DeprecationWarning\<close> (one call of \<^verbatim>\<open>warnings.warn\<close>; it is printed once when the filter
  shows it, and not at all when the filter ignores it). Importing the module again finds
  it in the module cache, returns it and leaves the state as it is: no second warning.
\<close>

theorem one_notice_per_load:
  assumes "sys_modules st shim_name = None" and "import_shim env st = (Inr m, st')"
  shows "length (filter is_deprecation_notice (trace st')) =
           length (filter is_deprecation_notice (trace st)) + 1 \<and>
         shown st' = shown st @ notice_shown env \<and>
         import_shim env st' = (Inr m, st') \<and>
         length (filter is_deprecation_notice (trace (snd (import_shim env st')))) =
           length (filter is_deprecation_notice (trace st)) + 1"
proof -
  from assms obtain st1 where body: "exec_body env (module_attrs env) st = (Inr m, st1)"
    and st': "st' = st1\<lparr>sys_modules := (sys_modules st1)(shim_name \<mapsto> m)\<rparr>"
    by (rule import_shim_Inr)
  from body show ?thesis
  proof (rule exec_body_Inr)
    fix sdk c v
    assume tr: "trace st1 = trace st @ full_trace c"
      and sh: "shown st1 = shown st @ notice_shown env"
    have "sys_modules st' shim_name = Some m" by (simp add: st')
    then have again: "import_shim env st' = (Inr m, st')" by (rule import_shim_cached)
    show ?thesis
      by (simp add: again) (simp add: st' tr sh full_trace_counts)
  qed
qed

theorem one_notice_per_load_witness:
  "sys_modules st_fresh shim_name = None \<and>
   import_shim env_installed st_fresh = (Inr m_loaded, st_loaded) \<and>
   length (filter is_deprecation_notice (trace st_loaded)) = 1 \<and>
   shown st_loaded = [(DeprecationWarning, deprecation_message)] \<and>
   import_shim env_installed st_loaded = (Inr m_loaded, st_loaded) \<and>
   length (filter is_deprecation_notice (trace (snd (import_shim env_installed st_loaded)))) = 1"
proof -
  have n: "notice_shown env_installed = [(DeprecationWarning, deprecation_message)]"
    by (simp add: notice_shown_def env_installed_def)
  from one_notice_per_load [OF fresh_has_no_shim run_installed]
  have "length (filter is_deprecation_notice (trace st_loaded)) = 1"
    and "shown st_loaded = [(DeprecationWarning, deprecation_message)]"
    and "import_shim env_installed st_loaded = (Inr m_loaded, st_loaded)"
    and "length (filter is_deprecation_notice (trace (snd (import_shim env_installed st_loaded)))) = 1"
    by (simp_all add: st_fresh_log n)
  with fresh_has_no_shim run_installed show ?thesis
    by (intro conjI)
qed

text \<open>
  Claim C7, as the code has it. A load that fails leaves no module under \<^verbatim>\<open>rail_score\<close> in
  the cache, has executed neither assignment (lines 43 and 45), and has stopped at the
  statement that raised: the log ends after line 25 or after line 39. What came before
  that statement stays: \<^verbatim>\<open>warnings\<close> is cached (line 23); the warning has been issued, and
  printed when the filter shows it; a successor that was cached before the load is still
  cached, and a successor that line 39 loaded stays cached, each with at least the
  attributes it had.
\<close>

theorem failed_load_leaves_no_module:
  assumes "sys_modules st shim_name = None" and "import_shim env st = (Inl e, st')"
  shows "sys_modules st' shim_name = None \<and>
         sys_modules st' ''warnings'' \<noteq> None \<and>
         (trace st' = trace st @
            [Imported ''warnings'', Warned DeprecationWarning deprecation_message 2] \<or>
          trace st' = trace st @
            [Imported ''warnings'', Warned DeprecationWarning deprecation_message 2,
             StarImported successor_name]) \<and>
         filter (assigns ''RailScore'') (trace st') = filter (assigns ''RailScore'') (trace st) \<and>
         filter (assigns ''__all__'') (trace st') = filter (assigns ''__all__'') (trace st) \<and>
         shown st' = shown st @ notice_shown env \<and>
         (\<forall>sdk. sys_modules st successor_name = Some sdk \<longrightarrow>
            (\<exists>sdk'. sys_modules st' successor_name = Some sdk' \<and> sdk \<subseteq>\<^sub>m sdk')) \<and>
         (\<forall>sdk extra. emission env = None \<and> sys_modules st successor_name = None \<and>
            finder env successor_name = Loads sdk extra \<longrightarrow>
            (\<exists>sdk'. sys_modules st' successor_name = Some sdk' \<and> sdk \<subseteq>\<^sub>m sdk'))"
proof -
  from assms obtain st1 where body: "exec_body env (module_attrs env) st = (Inl e, st1)"
    and st': "st' = st1\<lparr>sys_modules := (sys_modules st1)(shim_name := None)\<rparr>"
    by (rule import_shim_Inl)
  from body show ?thesis
  proof (cases rule: exec_body_Inl)
    case at_warn
    then show ?thesis
      by (auto simp: st' emission_Some_notice_shown)
  next
    case at_load
    then show ?thesis by (auto simp: st')
  next
    case (at_star sdk0 sdk1)
    then show ?thesis by (auto simp: st')
  next
    case (at_names sdk0 sdk1)
    then show ?thesis by (auto simp: st')
  qed
qed

theorem failed_load_leaves_no_module_witness:
  "sys_modules st_fresh shim_name = None \<and>
   emission env_incomplete = None \<and>
   sys_modules st_fresh successor_name = None \<and>
   finder env_incomplete successor_name = Loads sdk_incomplete Map.empty \<and>
   fst (import_shim env_incomplete st_fresh) = Inl (ImportError ''__version__'' ''rail_score_sdk'') \<and>
   sys_modules (snd (import_shim env_incomplete st_fresh)) shim_name = None \<and>
   sys_modules (snd (import_shim env_incomplete st_fresh)) ''warnings'' \<noteq> None \<and>
   sys_modules (snd (import_shim env_incomplete st_fresh)) successor_name = Some sdk_incomplete \<and>
   trace (snd (import_shim env_incomplete st_fresh)) =
     [Imported ''warnings'', Warned DeprecationWarning deprecation_message 2,
      StarImported ''rail_score_sdk''] \<and>
   shown (snd (import_shim env_incomplete st_fresh)) = [(DeprecationWarning, deprecation_message)]"
proof -
  let ?st = "snd (import_shim env_incomplete st_fresh)"
  have run: "import_shim env_incomplete st_fresh =
      (Inl (ImportError ''__version__'' ''rail_score_sdk''), ?st)"
    using run_incomplete(1) by (simp add: prod_eq_iff)
  note t = failed_load_leaves_no_module [OF fresh_has_no_shim run]
  note s = t [THEN conjunct1] and w = t [THEN conjunct2, THEN conjunct1]
  note l = t [THEN conjunct2, THEN conjunct2, THEN conjunct2, THEN conjunct2, THEN conjunct2,
    THEN conjunct2, THEN conjunct2]
  from l emissions(4) fresh_has_no_successor finders(6)
  obtain sdk' where "sys_modules ?st successor_name = Some sdk'" by blast
  with run_incomplete(5) have c: "sys_modules ?st successor_name = Some sdk_incomplete"
    by (simp add: successor_name_literal)
  from fresh_has_no_shim emissions(4) fresh_has_no_successor finders(6) run_incomplete(1) s w c
    run_incomplete(3) run_incomplete(2)
  show ?thesis by (intro conjI)
qed

text \<open>
  With the successor not installed and a filter that shows the warning, the load fails
  and the warning has been printed all the same: the state after the failure is not the
  state before it.
\<close>

theorem failed_load_keeps_notice:
  "fst (import_shim env_missing st_fresh) = Inl (ModuleNotFoundError ''rail_score_sdk'') \<and>
   shown st_fresh = [] \<and>
   shown (snd (import_shim env_missing st_fresh)) = [(DeprecationWarning, deprecation_message)] \<and>
   trace (snd (import_shim env_missing st_fresh)) =
     [Imported ''warnings'', Warned DeprecationWarning deprecation_message 2] \<and>
   snd (import_shim env_missing st_fresh) \<noteq> st_fresh"
proof -
  have "shown (snd (import_shim env_missing st_fresh)) \<noteq> shown st_fresh"
    by (simp add: run_missing st_fresh_log)
  then have "snd (import_shim env_missing st_fresh) \<noteq> st_fresh" by auto
  then show ?thesis by (simp add: run_missing st_fresh_log)
qed

text \<open>
  Claim C8, as the code has it. Line 25 is not guarded. It raises when the filter's action
  for \<open>DeprecationWarning\<close> is "error" (the exception is the warning) and when showing the
  warning raises (the exception is that of the display); then the load of a module not
  yet cached fails with that exception at line 25, and the successor is not imported.
  It does not raise when the filter ignores the warning, or shows it and the display
  succeeds; then the load goes on, and with a successor that is cached or loads, and has
  every name lines 39 and 40 look up, it succeeds.
\<close>

theorem notice_raises_or_load_goes_on:
  assumes "sys_modules st shim_name = None"
  shows "(\<forall>e. emission env = Some e \<longrightarrow>
            fst (import_shim env st) = Inl e \<and>
            sys_modules (snd (import_shim env st)) successor_name = sys_modules st successor_name \<and>
            trace (snd (import_shim env st)) = trace st @
              [Imported ''warnings'', Warned DeprecationWarning deprecation_message 2]) \<and>
         (\<forall>sdk extra. emission env = None \<and> complete sdk \<and>
            (sys_modules st successor_name = Some sdk \<or>
             (sys_modules st successor_name = None \<and> finder env successor_name = Loads sdk extra))
            \<longrightarrow> (\<exists>m. fst (import_shim env st) = Inr m \<and>
                      m ''RailScore'' = sdk ''RailScoreClient'')) \<and>
         (emission env = None) =
           (warn_action env DeprecationWarning = ActIgnore \<or>
            (warn_action env DeprecationWarning = ActShow \<and>
             showwarning env DeprecationWarning deprecation_message = None))"
proof (intro conjI allI impI)
  fix e
  assume em: "emission env = Some e"
  have w: "stmt_warn env g st0 = (Inl e, record_event (Warned DeprecationWarning deprecation_message 2) st0)"
    for g st0
    using em
    by (auto simp: stmt_warn_def warn_def Let_def emission_def split: action.splits)
  have body: "exec_body env (module_attrs env) st =
      (Inl e, record_event (Warned DeprecationWarning deprecation_message 2)
         (record_event (Imported ''warnings'')
           (cache_more [''warnings'' \<mapsto> stdlib_warnings env] st)))"
    by (simp add: exec_body_def stmt_import_warnings_def w)
  show "fst (import_shim env st) = Inl e"
    by (simp add: import_shim_def assms body)
  show "sys_modules (snd (import_shim env st)) successor_name = sys_modules st successor_name"
    by (auto simp: import_shim_def assms body map_add_def split: option.splits)
  show "trace (snd (import_shim env st)) = trace st @
              [Imported ''warnings'', Warned DeprecationWarning deprecation_message 2]"
    by (simp add: import_shim_def assms body)
next
  fix sdk extra
  assume h: "emission env = None \<and> complete sdk \<and>
            (sys_modules st successor_name = Some sdk \<or>
             (sys_modules st successor_name = None \<and> finder env successor_name = Loads sdk extra))"
  then have "\<exists>m st'. exec_body env (module_attrs env) st = (Inr m, st') \<and>
      m ''RailScore'' = sdk ''RailScoreClient''"
    by (intro exec_body_succeeds [where extra = extra]) simp_all
  then show "\<exists>m. fst (import_shim env st) = Inr m \<and> m ''RailScore'' = sdk ''RailScoreClient''"
    by (auto simp: import_shim_def assms)
next
  show "(emission env = None) =
           (warn_action env DeprecationWarning = ActIgnore \<or>
            (warn_action env DeprecationWarning = ActShow \<and>
             showwarning env DeprecationWarning deprecation_message = None))"
    by (auto simp: emission_def split: action.splits)
qed

theorem notice_raises_or_load_goes_on_witness:
  "sys_modules st_fresh shim_name = None \<and>
   emission env_strict = Some (WarningAsError DeprecationWarning deprecation_message) \<and>
   fst (import_shim env_strict st_fresh) =
     Inl (WarningAsError DeprecationWarning deprecation_message) \<and>
   emission env_closed_stderr = Some (OtherException ''ValueError'') \<and>
   fst (import_shim env_closed_stderr st_fresh) = Inl (OtherException ''ValueError'') \<and>
   emission env_installed = None \<and>
   complete sdk_module \<and>
   sys_modules st_fresh successor_name = None \<and>
   finder env_installed successor_name = Loads sdk_module [''httpx'' \<mapsto> Map.empty] \<and>
   isl (fst (import_shim env_installed st_fresh)) = False"
proof -
  note t1 = notice_raises_or_load_goes_on [OF fresh_has_no_shim, of env_strict, THEN conjunct1]
  note t2 = notice_raises_or_load_goes_on [OF fresh_has_no_shim, of env_closed_stderr,
    THEN conjunct1]
  note t3 = notice_raises_or_load_goes_on [OF fresh_has_no_shim, of env_installed,
    THEN conjunct2, THEN conjunct1]
  from t1 emissions(5) have a: "fst (import_shim env_strict st_fresh) =
     Inl (WarningAsError DeprecationWarning deprecation_message)" by blast
  from t2 emissions(6) have b: "fst (import_shim env_closed_stderr st_fresh) =
     Inl (OtherException ''ValueError'')" by blast
  from t3 emissions(1) sdk_module_complete fresh_has_no_successor finders(1)
  obtain m where "fst (import_shim env_installed st_fresh) = Inr m" by blast
  then have c: "isl (fst (import_shim env_installed st_fresh)) = False" by simp
  from fresh_has_no_shim emissions(5) a emissions(6) b emissions(1) sdk_module_complete
    fresh_has_no_successor finders(1) c
  show ?thesis by (intro conjI)
qed

text \<open>
  Under \<^verbatim>\<open>python -W error\<close>, with the successor installed and complete, the load fails at
  line 25 with the warning raised as an exception.
\<close>

theorem notice_aborts_load_under_error_action:
  "finder env_strict ''rail_score_sdk'' = Loads sdk_module [''httpx'' \<mapsto> Map.empty] \<and>
   sdk_module ''RailScoreClient'' = Some (Ref 1) \<and>
   sdk_module ''__version__'' = Some (Ref 2) \<and>
   fst (import_shim env_strict st_fresh) =
     Inl (WarningAsError DeprecationWarning deprecation_message) \<and>
   sys_modules (snd (import_shim env_strict st_fresh)) shim_name = None"
  using finders(2) by (simp add: run_strict sdk_module_values successor_name_literal)






end
